theory Spec2Isabelle
  imports Complex_Main
begin

section \<open>JavaScript values\<close>

text \<open>
  The benchmark scripts are JavaScript. Values that cross an interface whose shape the
  scripts do not control (response bodies, the statistics object of the load generator)
  are modelled as \<open>jsval\<close>, with the language's truthiness and its \<open>||\<close> operator.
  Numbers are idealised as reals, with \<open>NaN\<close> as a value of its own; rounding of IEEE
  doubles is not modelled. An object is the list of its properties, with distinct keys.
\<close>

datatype jsval =
    JUndefined
  | JNull
  | JBool bool
  | JNum real
  | JNaN
  | JStr string
  | JObj "(string \<times> jsval) list"

fun truthy :: "jsval \<Rightarrow> bool" where
  "truthy JUndefined = False"
| "truthy JNull = False"
| "truthy (JBool b) = b"
| "truthy (JNum x) = (x \<noteq> 0)"
| "truthy JNaN = False"
| "truthy (JStr s) = (s \<noteq> [])"
| "truthy (JObj fs) = True"

text \<open>\<open>a || b\<close>: the left operand when it is truthy, the right operand otherwise.\<close>

definition js_or :: "jsval \<Rightarrow> jsval \<Rightarrow> jsval" where
  "js_or a b = (if truthy a then a else b)"

datatype js_error =
    TypeError
  | Error string
  | AxiosError "(nat \<times> jsval) option"
  | ExecError
  | PidusageError
  | AutocannonError

text \<open>
  Property read \<open>v.k\<close>: a TypeError on \<open>undefined\<close> and \<open>null\<close>, the field of an object
  when it has one, \<open>undefined\<close> otherwise. The scripts read only the keys \<open>secret\<close>,
  \<open>commitment\<close>, \<open>proof\<close> and \<open>valid\<close>, none of which a primitive value has.
\<close>

fun get_prop :: "jsval \<Rightarrow> string \<Rightarrow> js_error + jsval" where
  "get_prop JUndefined k = Inl TypeError"
| "get_prop JNull k = Inl TypeError"
| "get_prop (JObj fs) k = (case map_of fs k of None \<Rightarrow> Inr JUndefined | Some v \<Rightarrow> Inr v)"
| "get_prop v k = Inr JUndefined"

section \<open>bench.js: resource samples and their aggregation\<close>

text \<open>One observation of \<open>pidusage\<close>: the fields \<open>cpu\<close> and \<open>memory\<close> that the script reads.\<close>

record sample =
  cpu :: real
  memory :: real

text \<open>
  \<open>computeAverages\<close>: \<open>null\<close> for an empty array; otherwise \<open>reduce\<close> from
  \<open>{cpu: 0, memory: 0}\<close> adds the fields up and both sums are divided by the length.
  The result object has the shape of a sample.
\<close>

definition computeAverages :: "sample list \<Rightarrow> sample option" where
  "computeAverages samples =
     (if length samples = 0 then None
      else
        let sum = foldl (\<lambda>a s. \<lparr>cpu = cpu a + cpu s, memory = memory a + memory s\<rparr>)
                        \<lparr>cpu = 0, memory = 0\<rparr> samples;
            n = real (length samples)
        in Some \<lparr>cpu = cpu sum / n, memory = memory sum / n\<rparr>)"

section \<open>bench.js: effects, the environment and the HTTP client\<close>

text \<open>
  What the script does to the outside world is recorded as a trace of events, in program
  order. Progress lines written with \<open>console.log\<close> are left out; the lines of the
  final table are one \<open>PrintSummary\<close> event per record. Message texts are given in
  ASCII.
\<close>

record request =
  req_method :: string
  req_path :: string
  req_headers :: "(string \<times> string) list"
  req_body :: "string option"

text \<open>
  A request template of the load generator. \<open>setupRequest\<close>, when present, is called
  by the load generator on every request it is about to send; its first argument here
  is the string that \<open>Math.random().toString(36).slice(2)\<close> yields inside that call.
\<close>

record request_tpl =
  tpl_method :: string
  tpl_path :: string
  tpl_headers :: "(string \<times> string) list"
  tpl_body :: "string option"
  setupRequest :: "(string \<Rightarrow> request \<Rightarrow> request) option"

record endpoint =
  ep_name :: string
  ep_requests :: "request_tpl list"

record load_opts =
  connections :: nat
  duration :: nat
  requests :: "request_tpl list"

record latency_stats =
  lat_average :: jsval
  lat_p50 :: jsval
  lat_median :: jsval
  lat_mean :: jsval

record load_result =
  latency :: latency_stats
  throughput_average :: jsval
  requests_average :: jsval

record summary =
  endpoint_name :: string
  concurrency :: nat
  latencyAvg :: jsval
  latencyP50 :: jsval
  throughputAvg :: jsval
  requestsPerSec :: jsval
  sum_cpu :: "real option"
  sum_memory :: "real option"

datatype event =
    ConsoleWarn string
  | ConsoleError string
  | ConsoleErrorObj js_error
  | HttpGet string
  | HttpPost string jsval
  | Sleep nat
  | Exec string
  | MonitorStart int
  | MonitorStop
  | RunAutocannon load_opts
  | PrintSummary summary
  | ProcessExit nat

text \<open>What the network gives back for one request: nothing, or a status and a body.\<close>

datatype http_outcome = NoResponse | Response nat jsval

record url =
  protocol :: string
  port :: string

text \<open>
  Everything the script obtains from outside: the environment variable \<open>BASE_URL\<close>
  (absent when \<open>None\<close>), the server's answers,
  the random strings, the URL parser, the shell, the process sampler, the load
  generator and the JSON serialiser.
  \<open>http_get i\<close> is the outcome of the \<open>i\<close>-th readiness probe;
  \<open>pidusage pid t\<close> is how the lookup \<open>pidusage(pid)\<close> called at instant \<open>t\<close>
  settles; \<open>monitor_events name c\<close> lists, in order, what happens to the monitor's
  timer and lookups while the load phase of endpoint \<open>name\<close> at concurrency \<open>c\<close>
  runs.
\<close>

text \<open>
  What the event loop does for a resource monitor: the interval timer fires at an instant
  \<open>t\<close>, or the lookup that is \<open>i\<close>-th among those in flight settles.
\<close>

datatype mon_event = Fire nat | Settle nat

record env =
  env_BASE_URL :: "string option"
  http_get :: "nat \<Rightarrow> http_outcome"
  http_post :: "string \<Rightarrow> jsval \<Rightarrow> http_outcome"
  random36 :: "nat \<Rightarrow> string"
  parse_url :: "string \<Rightarrow> js_error + url"
  exec :: "string \<Rightarrow> js_error + string"
  pidusage :: "int \<Rightarrow> nat \<Rightarrow> js_error + sample"
  monitor_events :: "string \<Rightarrow> nat \<Rightarrow> mon_event list"
  autocannon :: "load_opts \<Rightarrow> js_error + load_result"
  JSON_stringify :: "jsval \<Rightarrow> string"

text \<open>A computation: the events it caused, and an exception or a value.\<close>

type_synonym 'a io = "event list \<times> (js_error + 'a)"

definition ret :: "'a \<Rightarrow> 'a io" where
  "ret x = ([], Inr x)"

definition bind_io :: "'a io \<Rightarrow> ('a \<Rightarrow> 'b io) \<Rightarrow> 'b io" where
  "bind_io m f =
     (case m of
        (tr, Inl e) \<Rightarrow> (tr, Inl e)
      | (tr, Inr x) \<Rightarrow> (case f x of (tr', r) \<Rightarrow> (tr @ tr', r)))"

definition lift :: "js_error + 'a \<Rightarrow> 'a io" where
  "lift r = ([], r)"

definition prepend :: "event list \<Rightarrow> 'a io \<Rightarrow> 'a io" where
  "prepend evs m = (evs @ fst m, snd m)"

text \<open>
  axios: the promise resolves with the response when the status is 2xx and rejects
  otherwise (the default \<open>validateStatus\<close>); on a rejection \<open>e.response\<close> is the
  response when one arrived and \<open>undefined\<close> when none did.
\<close>

definition axios_request :: "http_outcome \<Rightarrow> js_error + (nat \<times> jsval)" where
  "axios_request out =
     (case out of
        NoResponse \<Rightarrow> Inl (AxiosError None)
      | Response st d \<Rightarrow>
          if 200 \<le> st \<and> st < 300 then Inr (st, d) else Inl (AxiosError (Some (st, d))))"

fun error_response :: "js_error \<Rightarrow> (nat \<times> jsval) option" where
  "error_response (AxiosError r) = r"
| "error_response e = None"

definition axios_post :: "env \<Rightarrow> string \<Rightarrow> jsval \<Rightarrow> (nat \<times> jsval) io" where
  "axios_post env u body = ([HttpPost u body], axios_request (http_post env u body))"

text \<open>
  \<open>axios.get(BASE_URL).catch(e => e.response)\<close>: the handler turns every rejection
  into a fulfilled promise, whose value is the error's response (or \<open>undefined\<close>).
\<close>

definition probe :: "http_outcome \<Rightarrow> js_error + (nat \<times> jsval) option" where
  "probe out =
     (case axios_request out of
        Inl e \<Rightarrow> Inr (error_response e)
      | Inr r \<Rightarrow> Inr (Some r))"

section \<open>bench.js: configuration and helpers\<close>

text \<open>\<open>process.env.BASE_URL || 'http://localhost:8080'\<close>: an empty string is falsy too.\<close>

definition BASE_URL :: "env \<Rightarrow> string" where
  "BASE_URL env =
     (case env_BASE_URL env of
        None \<Rightarrow> ''http://localhost:8080''
      | Some u \<Rightarrow> if u \<noteq> [] then u else ''http://localhost:8080'')"

definition CONCURRENCY_LEVELS :: "nat list" where
  "CONCURRENCY_LEVELS = [1, 10, 15, 20, 25, 30]"

definition TEST_DURATION :: nat where
  "TEST_DURATION = 15"

definition SAMPLE_INTERVAL_MS :: nat where
  "SAMPLE_INTERVAL_MS = 250"

definition buildUser :: "string \<Rightarrow> jsval" where
  "buildUser rnd =
     JObj [(''email'', JStr (''user-'' @ rnd @ ''@example.com'')),
           (''name'', JStr ''Alice Doe''),
           (''age'', JNum 35),
           (''country'', JStr ''US''),
           (''dob'', JStr ''1989-05-17'')]"

text \<open>
  \<open>waitForServer\<close>: attempts \<open>i = 1 .. maxAttempts\<close>. An exception inside the
  \<open>try\<close> leads to the \<open>catch\<close> block, which throws on the last attempt and sleeps
  before the next one otherwise.
\<close>

function waitForServer_from :: "env \<Rightarrow> nat \<Rightarrow> nat \<Rightarrow> nat \<Rightarrow> unit io" where
  "waitForServer_from env maxAttempts delayMs i =
     (if i \<le> maxAttempts then
        (case probe (http_get env i) of
           Inr r \<Rightarrow> ([HttpGet (BASE_URL env)], Inr ())
         | Inl e \<Rightarrow>
             if i = maxAttempts
             then ([HttpGet (BASE_URL env)],
                   Inl (Error (''Server not reachable at '' @ BASE_URL env)))
             else prepend [HttpGet (BASE_URL env), Sleep delayMs]
                    (waitForServer_from env maxAttempts delayMs (Suc i)))
      else ([], Inr ()))"
  by pat_completeness auto
termination
  by (relation "measure (\<lambda>(env, maxAttempts, delayMs, i). Suc maxAttempts - i)") auto

definition waitForServer :: "env \<Rightarrow> unit io" where
  "waitForServer env = waitForServer_from env 30 1000 1"

text \<open>
  \<open>String.prototype.trim\<close> and \<open>parseInt(s, 10)\<close> on byte strings: leading white
  space is skipped, one sign is read, then the longest run of decimal digits; no digit
  at all gives \<open>NaN\<close>, which is \<open>None\<close> here.
\<close>

definition is_space :: "char \<Rightarrow> bool" where
  "is_space c = (c \<in> set [CHR '' '', CHR 0x09, CHR 0x0A, CHR 0x0B, CHR 0x0C, CHR 0x0D])"

definition is_digit :: "char \<Rightarrow> bool" where
  "is_digit c = (c \<in> set ''0123456789'')"

definition trim :: "string \<Rightarrow> string" where
  "trim s = rev (dropWhile is_space (rev (dropWhile is_space s)))"

definition digits_value :: "string \<Rightarrow> nat" where
  "digits_value ds = foldl (\<lambda>a c. 10 * a + (of_char c - 48)) 0 ds"

definition parseInt :: "string \<Rightarrow> int option" where
  "parseInt s =
     (let t = dropWhile is_space s;
          neg = (case t of c # r \<Rightarrow> c = CHR ''-'' | [] \<Rightarrow> False);
          u = (case t of c # r \<Rightarrow> if c = CHR ''-'' \<or> c = CHR ''+'' then r else t | [] \<Rightarrow> []);
          ds = takeWhile is_digit u
      in if ds = [] then None
         else Some (if neg then - int (digits_value ds) else int (digits_value ds)))"

text \<open>
  \<open>findServerPid\<close>: any exception (URL parsing, the shell command) gives \<open>null\<close>, and
  so does an output that does not start with a number.
\<close>

definition findServerPid :: "env \<Rightarrow> int option io" where
  "findServerPid env =
     (case parse_url env (BASE_URL env) of
        Inl e \<Rightarrow> ([], Inr None)
      | Inr u \<Rightarrow>
          let p = (if port u \<noteq> [] then port u
                   else if protocol u = ''https:'' then ''443'' else ''80'');
              cmd = ''lsof -i :'' @ p @ '' -t | head -n1''
          in ([Exec cmd],
              case exec env cmd of
                Inl e \<Rightarrow> Inr None
              | Inr stdout \<Rightarrow> Inr (parseInt (trim stdout))))"

text \<open>A value used as a condition: a process identifier is truthy unless \<open>null\<close> or 0.\<close>

fun pid_truthy :: "int option \<Rightarrow> bool" where
  "pid_truthy None = False"
| "pid_truthy (Some pid) = (pid \<noteq> 0)"

section \<open>bench.js: the resource monitor\<close>

text \<open>
  The object \<open>startResourceMonitor\<close> returns, with the timer it closes over and the
  lookups its callbacks have started and not yet seen settle. The callback of the timer
  is \<open>async () => { try { samples.push(await pidusage(pid)); } catch {} }\<close>:
  \<^item> when the timer fires, the callback calls \<open>pidusage(pid)\<close> and suspends at the
    \<open>await\<close>: one more lookup is in flight; a cleared timer fires no more;
  \<^item> when a lookup settles, its callback resumes: a sample is pushed, whether or not
    the timer has been cleared meanwhile, and a rejection is swallowed by the empty
    \<open>catch\<close>;
  \<^item> \<open>stop\<close> clears the timer and touches nothing else.
  The timer is set to \<open>timer_interval\<close> milliseconds; the passing of time itself is
  not modelled, the instants of the firings come with the events.
\<close>

record monitor =
  mon_pid :: int
  timer_interval :: nat
  timer_on :: bool
  in_flight :: "nat list"
  samples :: "sample list"

definition startResourceMonitor :: "int \<Rightarrow> monitor" where
  "startResourceMonitor pid =
     \<lparr>mon_pid = pid, timer_interval = SAMPLE_INTERVAL_MS, timer_on = True,
      in_flight = [], samples = []\<rparr>"

definition fire :: "nat \<Rightarrow> monitor \<Rightarrow> monitor" where
  "fire t m = (if timer_on m then m\<lparr>in_flight := in_flight m @ [t]\<rparr> else m)"

definition settle :: "env \<Rightarrow> nat \<Rightarrow> monitor \<Rightarrow> monitor" where
  "settle env i m =
     (if i < length (in_flight m) then
        (let t = in_flight m ! i;
             m' = m\<lparr>in_flight := take i (in_flight m) @ drop (Suc i) (in_flight m)\<rparr>
         in case pidusage env (mon_pid m) t of
              Inr s \<Rightarrow> m'\<lparr>samples := samples m' @ [s]\<rparr>
            | Inl e \<Rightarrow> m')
      else m)"

definition stop :: "monitor \<Rightarrow> monitor" where
  "stop m = m\<lparr>timer_on := False\<rparr>"

fun mon_step :: "env \<Rightarrow> monitor \<Rightarrow> mon_event \<Rightarrow> monitor" where
  "mon_step env m (Fire t) = fire t m"
| "mon_step env m (Settle i) = settle env i m"

definition run_monitor :: "env \<Rightarrow> mon_event list \<Rightarrow> monitor \<Rightarrow> monitor" where
  "run_monitor env evs m = foldl (mon_step env) m evs"

section \<open>bench.js: the main workflow\<close>

record fixture =
  fx_secretHex :: jsval
  fx_commitment :: jsval
  fx_proof :: jsval

text \<open>The body of the \<open>try\<close> block that computes the fixture.\<close>

definition preflight_chain :: "env \<Rightarrow> fixture io" where
  "preflight_chain env =
     bind_io (axios_post env (BASE_URL env @ ''/register'') (buildUser (random36 env 0))) (\<lambda>reg.
     bind_io (lift (get_prop (snd reg) ''secret'')) (\<lambda>secretHex.
     bind_io (lift (get_prop (snd reg) ''commitment'')) (\<lambda>commitment.
     bind_io (axios_post env (BASE_URL env @ ''/proof'')
                (JObj [(''secret_hex'', secretHex), (''commitment'', commitment)])) (\<lambda>prf.
     bind_io (lift (get_prop (snd prf) ''proof'')) (\<lambda>proof_val.
     bind_io (axios_post env (BASE_URL env @ ''/verify'')
                (JObj [(''commitment'', commitment), (''proof'', proof_val)])) (\<lambda>verResp.
     bind_io (lift (get_prop (snd verResp) ''valid'')) (\<lambda>valid.
       if \<not> truthy valid
       then lift (Inl (Error ''Initial verification failed; proof or commitment invalid''))
       else ret \<lparr>fx_secretHex = secretHex, fx_commitment = commitment,
                 fx_proof = proof_val\<rparr>)))))))"

text \<open>The \<open>catch\<close> around it: one line on the error stream, and the error is rethrown.\<close>

definition preflight :: "env \<Rightarrow> fixture io" where
  "preflight env =
     (case preflight_chain env of
        (tr, Inl e) \<Rightarrow>
          (tr @ [ConsoleError ''Failed to pre-compute proof / verification payloads''], Inl e)
      | (tr, Inr fx) \<Rightarrow> (tr, Inr fx))"

definition endpoints :: "env \<Rightarrow> fixture \<Rightarrow> endpoint list" where
  "endpoints env fx =
     [\<lparr>ep_name = ''register'',
       ep_requests =
         [\<lparr>tpl_method = ''POST'', tpl_path = ''/register'',
           tpl_headers = [(''Content-Type'', ''application/json'')],
           tpl_body = None,
           setupRequest =
             Some (\<lambda>rnd req. req\<lparr>req_body := Some (JSON_stringify env (buildUser rnd))\<rparr>)\<rparr>]\<rparr>,
      \<lparr>ep_name = ''generateProof'',
       ep_requests =
         [\<lparr>tpl_method = ''POST'', tpl_path = ''/proof'',
           tpl_headers = [(''Content-Type'', ''application/json'')],
           tpl_body =
             Some (JSON_stringify env
                     (JObj [(''secret_hex'', fx_secretHex fx),
                            (''commitment'', fx_commitment fx)])),
           setupRequest = None\<rparr>]\<rparr>,
      \<lparr>ep_name = ''verifyProof'',
       ep_requests =
         [\<lparr>tpl_method = ''POST'', tpl_path = ''/verify'',
           tpl_headers = [(''Content-Type'', ''application/json'')],
           tpl_body =
             Some (JSON_stringify env
                     (JObj [(''commitment'', fx_commitment fx), (''proof'', fx_proof fx)])),
           setupRequest = None\<rparr>]\<rparr>]"

text \<open>
  The request the load generator sends for a template, per its documented interface:
  the template's own fields, then \<open>setupRequest\<close> applied when the template has one.
\<close>

definition resolve_request :: "request_tpl \<Rightarrow> string \<Rightarrow> request" where
  "resolve_request tpl rnd =
     (let req = \<lparr>req_method = tpl_method tpl, req_path = tpl_path tpl,
                 req_headers = tpl_headers tpl, req_body = tpl_body tpl\<rparr>
      in case setupRequest tpl of None \<Rightarrow> req | Some f \<Rightarrow> f rnd req)"

text \<open>The record pushed after a phase, from the load result and the stopped monitor.\<close>

definition phase_summary :: "endpoint \<Rightarrow> nat \<Rightarrow> load_result \<Rightarrow> monitor option \<Rightarrow> summary" where
  "phase_summary ep c result mon =
     (let avg = (case mon of None \<Rightarrow> None | Some m \<Rightarrow> computeAverages (samples m))
      in \<lparr>endpoint_name = ep_name ep,
          concurrency = c,
          latencyAvg = lat_average (latency result),
          latencyP50 = js_or (js_or (lat_p50 (latency result)) (lat_median (latency result)))
                             (lat_mean (latency result)),
          throughputAvg = throughput_average result,
          requestsPerSec = requests_average result,
          sum_cpu = (case avg of None \<Rightarrow> None | Some a \<Rightarrow> Some (cpu a)),
          sum_memory = (case avg of None \<Rightarrow> None | Some a \<Rightarrow> Some (memory a))\<rparr>)"

text \<open>
  One pass of the inner loop body: the monitor is started when the process identifier is
  truthy, the load runs (the timer fires and lookups settle meanwhile), the monitor is
  stopped and the record is built at once from the samples pushed so far; a lookup still
  in flight then pushes into an array nobody reads again. A rejected load run leaves the
  body at once.
\<close>

definition run_phase :: "env \<Rightarrow> int option \<Rightarrow> endpoint \<Rightarrow> nat \<Rightarrow> summary io" where
  "run_phase env serverPid ep c =
     (let mon = (case serverPid of
                   None \<Rightarrow> None
                 | Some pid \<Rightarrow> if pid \<noteq> 0 then Some (startResourceMonitor pid) else None);
          opts = \<lparr>connections = c, duration = TEST_DURATION, requests = ep_requests ep\<rparr>;
          started = (case mon of None \<Rightarrow> [] | Some m \<Rightarrow> [MonitorStart (mon_pid m)]) @
                    [RunAutocannon opts]
      in case autocannon env opts of
           Inl e \<Rightarrow> (started, Inl e)
         | Inr result \<Rightarrow>
             (let mon' = (case mon of
                            None \<Rightarrow> None
                          | Some m \<Rightarrow>
                              Some (stop (run_monitor env
                                (monitor_events env (ep_name ep) c) m)))
              in (started @ (case mon' of None \<Rightarrow> [] | Some m \<Rightarrow> [MonitorStop]),
                  Inr (phase_summary ep c result mon'))))"

text \<open>
  The two nested loops. The array \<open>summaries\<close> is threaded through; an exception ends
  both loops and leaves the array as it was.
\<close>

fun sweep_levels ::
  "env \<Rightarrow> int option \<Rightarrow> endpoint \<Rightarrow> nat list \<Rightarrow> summary list
     \<Rightarrow> event list \<times> summary list \<times> js_error option" where
  "sweep_levels env serverPid ep [] summaries = ([], summaries, None)"
| "sweep_levels env serverPid ep (c # cs) summaries =
     (case run_phase env serverPid ep c of
        (tr, Inl e) \<Rightarrow> (tr, summaries, Some e)
      | (tr, Inr s) \<Rightarrow>
          (case sweep_levels env serverPid ep cs (summaries @ [s]) of
             (tr', res) \<Rightarrow> (tr @ tr', res)))"

fun sweep ::
  "env \<Rightarrow> int option \<Rightarrow> endpoint list \<Rightarrow> summary list
     \<Rightarrow> event list \<times> summary list \<times> js_error option" where
  "sweep env serverPid [] summaries = ([], summaries, None)"
| "sweep env serverPid (ep # eps) summaries =
     (case sweep_levels env serverPid ep CONCURRENCY_LEVELS summaries of
        (tr, summaries', Some e) \<Rightarrow> (tr, summaries', Some e)
      | (tr, summaries', None) \<Rightarrow>
          (case sweep env serverPid eps summaries' of
             (tr', res) \<Rightarrow> (tr @ tr', res)))"

text \<open>
  The table: \<open>toFixed\<close> is called on three fields as they are, so a field that is not
  a number raises a TypeError; the throughput is divided first, which always gives a
  number.
\<close>

fun can_toFixed :: "jsval \<Rightarrow> bool" where
  "can_toFixed (JNum x) = True"
| "can_toFixed JNaN = True"
| "can_toFixed v = False"

definition print_summary :: "summary \<Rightarrow> unit io" where
  "print_summary s =
     (if can_toFixed (latencyAvg s) \<and> can_toFixed (latencyP50 s) \<and>
         can_toFixed (requestsPerSec s)
      then ([PrintSummary s], Inr ())
      else ([], Inl TypeError))"

fun print_table :: "summary list \<Rightarrow> unit io" where
  "print_table [] = ([], Inr ())"
| "print_table (s # ss) =
     (case print_summary s of
        (tr, Inl e) \<Rightarrow> (tr, Inl e)
      | (tr, Inr u) \<Rightarrow> prepend tr (print_table ss))"

text \<open>
  The body of \<open>main\<close>: the events, the array \<open>summaries\<close> as the body left it (empty
  when the body never reached its creation), and the exception that ended it, if any.
\<close>

definition main_body :: "env \<Rightarrow> event list \<times> summary list \<times> js_error option" where
  "main_body env =
     (case waitForServer env of
        (tr0, Inl e) \<Rightarrow> (tr0, [], Some e)
      | (tr0, Inr u) \<Rightarrow>
     (case preflight env of
        (tr1, Inl e) \<Rightarrow> (tr0 @ tr1, [], Some e)
      | (tr1, Inr fx) \<Rightarrow>
     (case findServerPid env of
        (tr2, Inl e) \<Rightarrow> (tr0 @ tr1 @ tr2, [], Some e)
      | (tr2, Inr serverPid) \<Rightarrow>
     (let warn = (if pid_truthy serverPid then []
                  else [ConsoleWarn ''Server PID not found - CPU/memory stats will be n/a.''])
      in case sweep env serverPid (endpoints env fx) [] of
           (tr3, summaries, Some e) \<Rightarrow> (tr0 @ tr1 @ tr2 @ warn @ tr3, summaries, Some e)
         | (tr3, summaries, None) \<Rightarrow>
             (case print_table summaries of
                (tr4, Inl e) \<Rightarrow> (tr0 @ tr1 @ tr2 @ warn @ tr3 @ tr4, summaries, Some e)
              | (tr4, Inr u) \<Rightarrow> (tr0 @ tr1 @ tr2 @ warn @ tr3 @ tr4, summaries, None))))))"

text \<open>
  The whole script: \<open>main().catch(err => { console.error(err); process.exit(1); })\<close>.
  Without an exception the process ends with status 0.
\<close>

record run_result =
  events :: "event list"
  produced :: "summary list"
  exit_status :: nat

definition main :: "env \<Rightarrow> run_result" where
  "main env =
     (case main_body env of
        (tr, summaries, Some e) \<Rightarrow>
          \<lparr>events = tr @ [ConsoleErrorObj e, ProcessExit 1], produced = summaries,
           exit_status = 1\<rparr>
      | (tr, summaries, None) \<Rightarrow>
          \<lparr>events = tr, produced = summaries, exit_status = 0\<rparr>)"

section \<open>The staged load script (k6)\<close>

text \<open>
  What one iteration of the script's default function obtains from outside: the
  responses of \<open>http.post\<close> (which reports a failed request as a response, status 0
  included, and does not throw), the pieces of the user identifier (\<open>__VU\<close>,
  \<open>Date.now()\<close> and \<open>Math.random()\<close> as the template literal renders them), the pacing
  constant \<open>PACE_MS\<close> as the number the script computes from \<open>__ENV\<close>, and the JSON
  serialiser. \<open>res.json()\<close> throws on a body that is not JSON.
\<close>

record k6_response =
  k6_status :: nat
  k6_duration :: real
  k6_json :: "js_error + jsval"

record k6_env =
  k6_post :: "string \<Rightarrow> string \<Rightarrow> k6_response"
  k6_VU :: string
  k6_now :: string
  k6_random :: string
  PACE_MS :: real
  k6_stringify :: "jsval \<Rightarrow> string"

datatype k6_event =
    K6Post string string
  | K6Check string bool
  | K6TrendAdd string real
  | K6Sleep real

text \<open>
  \<open>postJson\<close>: the request, the check of the status under the given label, the
  duration added to the trend when one is given; the response when the check passed and
  \<open>null\<close> otherwise. A trend is identified by the name it was created with.
\<close>

definition postJson ::
  "k6_env \<Rightarrow> string \<Rightarrow> jsval \<Rightarrow> string option \<Rightarrow> string
     \<Rightarrow> k6_event list \<times> k6_response option" where
  "postJson env u body trend label =
     (let res = k6_post env u (k6_stringify env body);
          ok = (k6_status res = 200)
      in ([K6Post u (k6_stringify env body), K6Check label ok] @
          (case trend of None \<Rightarrow> [] | Some t \<Rightarrow> [K6TrendAdd t (k6_duration res)]),
          if ok then Some res else None))"

definition regBody :: "k6_env \<Rightarrow> jsval" where
  "regBody env =
     (let uid = k6_VU env @ ''_'' @ k6_now env @ ''_'' @ k6_random env
      in JObj [(''email'', JStr (''u'' @ uid @ ''@x.io'')),
               (''name'', JStr uid),
               (''age'', JNum 30),
               (''country'', JStr ''US''),
               (''dob'', JStr ''1990-01-01'')])"

text \<open>
  The default function: the events of one iteration, and the exception that ended it, if
  any (from \<open>json()\<close>, or from destructuring \<open>null\<close>).
\<close>

definition iteration :: "k6_env \<Rightarrow> k6_event list \<times> js_error option" where
  "iteration env =
     (case postJson env ''http://localhost:8080/register'' (regBody env)
             (Some ''register_latency'') ''register 200'' of
        (tr1, None) \<Rightarrow> (tr1 @ [K6Sleep (PACE_MS env / 1000)], None)
      | (tr1, Some regRes) \<Rightarrow>
     (case k6_json regRes of
        Inl e \<Rightarrow> (tr1, Some e)
      | Inr j \<Rightarrow>
     (case get_prop j ''secret'' of
        Inl e \<Rightarrow> (tr1, Some e)
      | Inr secret \<Rightarrow>
     (case get_prop j ''commitment'' of
        Inl e \<Rightarrow> (tr1, Some e)
      | Inr commitment \<Rightarrow>
     (case postJson env ''http://localhost:8080/proof''
             (JObj [(''secret_hex'', secret), (''commitment'', commitment)])
             (Some ''proof_latency'') ''proof 200'' of
        (tr2, None) \<Rightarrow> (tr1 @ tr2 @ [K6Sleep (PACE_MS env / 1000)], None)
      | (tr2, Some proofRes) \<Rightarrow>
     (case k6_json proofRes of
        Inl e \<Rightarrow> (tr1 @ tr2, Some e)
      | Inr j2 \<Rightarrow>
     (case get_prop j2 ''proof'' of
        Inl e \<Rightarrow> (tr1 @ tr2, Some e)
      | Inr proof_val \<Rightarrow>
     (case postJson env ''http://localhost:8080/verify''
             (JObj [(''commitment'', commitment), (''proof'', proof_val)])
             (Some ''verify_latency'') ''verify 200'' of
        (tr3, verRes) \<Rightarrow>
          (tr1 @ tr2 @ tr3 @ [K6Sleep (PACE_MS env / 1000)], None)))))))))"

section \<open>Vocabulary of the properties\<close>

text \<open>
  The three answers of the preflight chain, each to the request the script builds from
  the answers before it. \<open>field\<close> reads a key where no exception is at stake.
\<close>

definition field :: "jsval \<Rightarrow> string \<Rightarrow> jsval" where
  "field v k = (case get_prop v k of Inl e \<Rightarrow> JUndefined | Inr x \<Rightarrow> x)"

definition body_of :: "http_outcome \<Rightarrow> jsval" where
  "body_of out = (case out of NoResponse \<Rightarrow> JUndefined | Response st d \<Rightarrow> d)"

definition register_step :: "env \<Rightarrow> http_outcome" where
  "register_step env =
     http_post env (BASE_URL env @ ''/register'') (buildUser (random36 env 0))"

definition proof_step :: "env \<Rightarrow> http_outcome" where
  "proof_step env =
     http_post env (BASE_URL env @ ''/proof'')
       (JObj [(''secret_hex'', field (body_of (register_step env)) ''secret''),
              (''commitment'', field (body_of (register_step env)) ''commitment'')])"

definition verify_step :: "env \<Rightarrow> http_outcome" where
  "verify_step env =
     http_post env (BASE_URL env @ ''/verify'')
       (JObj [(''commitment'', field (body_of (register_step env)) ''commitment''),
              (''proof'', field (body_of (proof_step env)) ''proof'')])"

text \<open>
  A step has failed when no response arrived (a network error), when the status is not a
  success status, or when the response carries no body to read a field from.
\<close>

definition step_failed :: "http_outcome \<Rightarrow> bool" where
  "step_failed out =
     (case out of
        NoResponse \<Rightarrow> True
      | Response st d \<Rightarrow> st < 200 \<or> 300 \<le> st \<or> d = JUndefined \<or> d = JNull)"

definition chain_failed :: "env \<Rightarrow> bool" where
  "chain_failed env =
     (step_failed (register_step env) \<or> step_failed (proof_step env) \<or>
      step_failed (verify_step env) \<or>
      \<not> truthy (field (body_of (verify_step env)) ''valid''))"

text \<open>
  The exception a failed step raises in the script: the rejection of axios, or the
  TypeError of reading a field of a missing body. \<open>chain_error\<close> is that of the first
  failed step, \<open>chain_length\<close> the number of requests sent up to it, \<open>chain_posts\<close> the
  three requests.
\<close>

definition step_error :: "http_outcome \<Rightarrow> js_error" where
  "step_error out =
     (case out of
        NoResponse \<Rightarrow> AxiosError None
      | Response st d \<Rightarrow>
          if 200 \<le> st \<and> st < 300 then TypeError else AxiosError (Some (st, d)))"

definition chain_error :: "env \<Rightarrow> js_error" where
  "chain_error env =
     (if step_failed (register_step env) then step_error (register_step env)
      else if step_failed (proof_step env) then step_error (proof_step env)
      else if step_failed (verify_step env) then step_error (verify_step env)
      else Error ''Initial verification failed; proof or commitment invalid'')"

definition chain_length :: "env \<Rightarrow> nat" where
  "chain_length env =
     (if step_failed (register_step env) then 1
      else if step_failed (proof_step env) then 2 else 3)"

definition chain_posts :: "env \<Rightarrow> event list" where
  "chain_posts env =
     [HttpPost (BASE_URL env @ ''/register'') (buildUser (random36 env 0)),
      HttpPost (BASE_URL env @ ''/proof'')
        (JObj [(''secret_hex'', field (body_of (register_step env)) ''secret''),
               (''commitment'', field (body_of (register_step env)) ''commitment'')]),
      HttpPost (BASE_URL env @ ''/verify'')
        (JObj [(''commitment'', field (body_of (register_step env)) ''commitment''),
               (''proof'', field (body_of (proof_step env)) ''proof'')])]"

fun is_load :: "event \<Rightarrow> bool" where
  "is_load (RunAutocannon opts) = True"
| "is_load ev = False"

fun is_monitor_start :: "event \<Rightarrow> bool" where
  "is_monitor_start (MonitorStart pid) = True"
| "is_monitor_start ev = False"

text \<open>
  The load runs recorded in a trace, the key of a record, a record without resource
  figures, and the instants at which the timer fires in a list of monitor events.
\<close>

fun load_of :: "event \<Rightarrow> load_opts list" where
  "load_of (RunAutocannon opts) = [opts]"
| "load_of ev = []"

definition loads :: "event list \<Rightarrow> load_opts list" where
  "loads tr = concat (map load_of tr)"

definition summary_key :: "summary \<Rightarrow> string \<times> nat" where
  "summary_key s = (endpoint_name s, concurrency s)"

definition no_resources :: "summary \<Rightarrow> bool" where
  "no_resources s = (sum_cpu s = None \<and> sum_memory s = None)"

fun fired :: "mon_event list \<Rightarrow> nat list" where
  "fired [] = []"
| "fired (Fire t # evs) = t # fired evs"
| "fired (Settle i # evs) = fired evs"

text \<open>
  What \<open>main\<close> writes around the sweep: the warning when no process was found, and the
  table or the error at the end.
\<close>

definition pid_warning :: "int option \<Rightarrow> event list" where
  "pid_warning pid =
     (if pid_truthy pid then []
      else [ConsoleWarn ''Server PID not found - CPU/memory stats will be n/a.''])"

definition closing_events :: "summary list \<Rightarrow> js_error option \<Rightarrow> event list" where
  "closing_events acc r =
     (case r of
        Some e \<Rightarrow> [ConsoleErrorObj e, ProcessExit 1]
      | None \<Rightarrow>
          (case print_table acc of
             (tr4, Inl e) \<Rightarrow> tr4 @ [ConsoleErrorObj e, ProcessExit 1]
           | (tr4, Inr u) \<Rightarrow> tr4))"

text \<open>
  The three answers within one iteration of the staged script, each to the request built
  from the answers before it, and what it takes for \<open>json()\<close> and the destructuring
  of its result to go through.
\<close>

definition k6_register_res :: "k6_env \<Rightarrow> k6_response" where
  "k6_register_res env =
     k6_post env ''http://localhost:8080/register'' (k6_stringify env (regBody env))"

definition k6_json_of :: "k6_response \<Rightarrow> jsval" where
  "k6_json_of res = (case k6_json res of Inl e \<Rightarrow> JUndefined | Inr j \<Rightarrow> j)"

definition k6_proof_body :: "k6_env \<Rightarrow> jsval" where
  "k6_proof_body env =
     JObj [(''secret_hex'', field (k6_json_of (k6_register_res env)) ''secret''),
           (''commitment'', field (k6_json_of (k6_register_res env)) ''commitment'')]"

definition k6_proof_res :: "k6_env \<Rightarrow> k6_response" where
  "k6_proof_res env =
     k6_post env ''http://localhost:8080/proof'' (k6_stringify env (k6_proof_body env))"

definition k6_verify_body :: "k6_env \<Rightarrow> jsval" where
  "k6_verify_body env =
     JObj [(''commitment'', field (k6_json_of (k6_register_res env)) ''commitment''),
           (''proof'', field (k6_json_of (k6_proof_res env)) ''proof'')]"

definition k6_verify_res :: "k6_env \<Rightarrow> k6_response" where
  "k6_verify_res env =
     k6_post env ''http://localhost:8080/verify'' (k6_stringify env (k6_verify_body env))"

definition readable :: "k6_response \<Rightarrow> bool" where
  "readable res =
     (case k6_json res of Inl e \<Rightarrow> False | Inr j \<Rightarrow> j \<noteq> JUndefined \<and> j \<noteq> JNull)"

section \<open>Example environments\<close>

text \<open>A load result with every statistic present.\<close>

definition sample_result :: load_result where
  "sample_result =
     \<lparr>latency = \<lparr>lat_average = JNum 12, lat_p50 = JNum 11, lat_median = JUndefined,
                  lat_mean = JNum 12\<rparr>,
      throughput_average = JNum 2048, requests_average = JNum 80\<rparr>"

text \<open>
  A service that answers as the scenario of the specification says: registration
  returns a secret and a commitment, the proof request a proof, verification
  \<open>valid: true\<close>.
\<close>

definition good_post :: "string \<Rightarrow> jsval \<Rightarrow> http_outcome" where
  "good_post u body =
     (if u = ''http://localhost:8080/register''
      then Response 200 (JObj [(''secret'', JStr ''0xAA''), (''commitment'', JStr ''123'')])
      else if u = ''http://localhost:8080/proof''
      then Response 200 (JObj [(''proof'', JObj [(''a'', JStr ''1'')])])
      else Response 200 (JObj [(''valid'', JBool True)]))"

text \<open>
  A serialiser for the examples: JSON text for objects, strings without characters to
  escape, whole numbers, booleans and \<open>null\<close>; a property whose value is
  \<open>undefined\<close> is left out, as \<open>JSON.stringify\<close> leaves it out.
\<close>

function show_nat :: "nat \<Rightarrow> string" where
  "show_nat n =
     (if n < 10 then [char_of (48 + n)]
      else show_nat (n div 10) @ [char_of (48 + n mod 10)])"
  by pat_completeness auto
termination
  by (relation "measure id") auto

fun join :: "string \<Rightarrow> string list \<Rightarrow> string" where
  "join sep [] = []"
| "join sep [x] = x"
| "join sep (x # y # ys) = x @ sep @ join sep (y # ys)"

fun is_undefined :: "jsval \<Rightarrow> bool" where
  "is_undefined JUndefined = True"
| "is_undefined v = False"

fun json_text :: "jsval \<Rightarrow> string" where
  "json_text JUndefined = []"
| "json_text JNull = ''null''"
| "json_text (JBool b) = (if b then ''true'' else ''false'')"
| "json_text (JNum x) = (if x < 0 then ''-'' else []) @ show_nat (nat \<lfloor>\<bar>x\<bar>\<rfloor>)"
| "json_text JNaN = ''null''"
| "json_text (JStr s) = [CHR 0x22] @ s @ [CHR 0x22]"
| "json_text (JObj fs) =
     ''{'' @
     join '','' (map (\<lambda>kv. [CHR 0x22] @ fst kv @ [CHR 0x22] @ '':'' @ json_text (snd kv))
                  (filter (\<lambda>kv. \<not> is_undefined (snd kv)) fs)) @
     ''}''"

text \<open>
  The process sampler of the examples knows one process, 4242; its lookup at instant 250
  fails, every other one gives the same figures. Any other identifier is not a process.
  While a phase runs the timer fires four times and two lookups settle, so that two are
  still in flight when the phase ends.
\<close>

definition good_pidusage :: "int \<Rightarrow> nat \<Rightarrow> js_error + sample" where
  "good_pidusage pid t =
     (if pid = 4242 \<and> t \<noteq> 250 then Inr \<lparr>cpu = 20, memory = 200\<rparr> else Inl PidusageError)"

definition good_events :: "mon_event list" where
  "good_events = [Fire 0, Fire 250, Settle 0, Fire 500, Settle 0, Fire 750]"

definition good_env :: env where
  "good_env =
     \<lparr>env_BASE_URL = None,
      http_get = (\<lambda>i. Response 404 JNull),
      http_post = good_post,
      random36 = (\<lambda>k. ''k3x9''),
      parse_url = (\<lambda>u. Inr \<lparr>protocol = ''http:'', port = ''8080''\<rparr>),
      exec = (\<lambda>cmd. Inr ''4242''),
      pidusage = good_pidusage,
      monitor_events = (\<lambda>name c. good_events),
      autocannon = (\<lambda>opts. Inr sample_result),
      JSON_stringify = json_text\<rparr>"

text \<open>The same service when nothing listens on the port: no probe is ever answered.\<close>

definition down_env :: env where
  "down_env = good_env\<lparr>http_get := (\<lambda>i. NoResponse), http_post := (\<lambda>u body. NoResponse)\<rparr>"

text \<open>The service when verification answers \<open>valid: false\<close>.\<close>

definition verify_invalid :: "string \<Rightarrow> jsval \<Rightarrow> http_outcome" where
  "verify_invalid u body =
     (if u = ''http://localhost:8080/verify''
      then Response 200 (JObj [(''valid'', JBool False)])
      else good_post u body)"

definition invalid_env :: env where
  "invalid_env = good_env\<lparr>http_post := verify_invalid\<rparr>"

text \<open>
  A service whose registration answer has a commitment but no \<open>secret\<close> field, and which
  answers the other two requests as before.
\<close>

definition register_no_secret :: "string \<Rightarrow> jsval \<Rightarrow> http_outcome" where
  "register_no_secret u body =
     (if u = ''http://localhost:8080/register''
      then Response 200 (JObj [(''commitment'', JStr ''123'')])
      else good_post u body)"

definition no_secret_env :: env where
  "no_secret_env = good_env\<lparr>http_post := register_no_secret\<rparr>"

text \<open>
  A measurement of a fast service: the 50th percentile is 0 ms, the mean is half a
  millisecond, and there is no \<open>median\<close> field.
\<close>

definition zero_p50_result :: load_result where
  "zero_p50_result =
     \<lparr>latency = \<lparr>lat_average = JNum (1 / 2), lat_p50 = JNum 0, lat_median = JUndefined,
                  lat_mean = JNum (1 / 2)\<rparr>,
      throughput_average = JNum 2048, requests_average = JNum 80\<rparr>"

definition register_ep :: endpoint where
  "register_ep = \<lparr>ep_name = ''register'', ep_requests = []\<rparr>"

text \<open>The shell command fails, so no process identifier is found.\<close>

definition no_pid_env :: env where
  "no_pid_env = good_env\<lparr>exec := (\<lambda>cmd. Inl ExecError)\<rparr>"

text \<open>A measurement in which every latency statistic is 0 ms and there is no median.\<close>

definition zero_everywhere_result :: load_result where
  "zero_everywhere_result =
     \<lparr>latency = \<lparr>lat_average = JNum 0, lat_p50 = JNum 0, lat_median = JUndefined,
                  lat_mean = JNum 0\<rparr>,
      throughput_average = JNum 2048, requests_average = JNum 80\<rparr>"

text \<open>The staged script against the same service, and against one whose registration fails.\<close>

definition k6_service :: "string \<Rightarrow> string \<Rightarrow> k6_response" where
  "k6_service u body =
     (if u = ''http://localhost:8080/register''
      then \<lparr>k6_status = 200, k6_duration = 7,
            k6_json = Inr (JObj [(''secret'', JStr ''0xAA''), (''commitment'', JStr ''123'')])\<rparr>
      else if u = ''http://localhost:8080/proof''
      then \<lparr>k6_status = 200, k6_duration = 90,
            k6_json = Inr (JObj [(''proof'', JObj [(''a'', JStr ''1'')])])\<rparr>
      else \<lparr>k6_status = 200, k6_duration = 5, k6_json = Inr (JObj [(''valid'', JBool True)])\<rparr>)"

definition k6_good_env :: k6_env where
  "k6_good_env =
     \<lparr>k6_post = k6_service, k6_VU = ''1'', k6_now = ''1700000000000'', k6_random = ''0.5'',
      PACE_MS = 100, k6_stringify = (\<lambda>v. ''{}'')\<rparr>"

definition k6_register_500 :: k6_env where
  "k6_register_500 =
     k6_good_env\<lparr>k6_post := (\<lambda>u body.
       if u = ''http://localhost:8080/register''
       then \<lparr>k6_status = 500, k6_duration = 3, k6_json = Inl (Error ''not JSON'')\<rparr>
       else k6_service u body)\<rparr>"

section \<open>Properties\<close>

lemma reduce_sum:
  "foldl (\<lambda>a s. \<lparr>cpu = cpu a + cpu s, memory = memory a + memory s\<rparr>) acc xs =
     \<lparr>cpu = cpu acc + sum_list (map cpu xs), memory = memory acc + sum_list (map memory xs)\<rparr>"
  by (induction xs arbitrary: acc) (simp_all add: add.assoc)

subsection \<open>Resource aggregation\<close>

text \<open>
  C3. For every list of samples, \<open>computeAverages\<close> returns the arithmetic mean of the
  \<open>cpu\<close> and of the \<open>memory\<close> fields when the list is not empty (\<open>s # ss\<close>) and
  \<open>null\<close> when it is empty, and the record of the phase then carries these means, or
  \<open>null\<close> in both fields. The function is a function of its argument alone: the model
  has no state for it to read or change, as the source has none.
\<close>

theorem computeAverages_mean:
  "computeAverages [] = None \<and>
   computeAverages (s # ss) =
     Some \<lparr>cpu = sum_list (map cpu (s # ss)) / real (length (s # ss)),
           memory = sum_list (map memory (s # ss)) / real (length (s # ss))\<rparr> \<and>
   sum_cpu (phase_summary ep c result (Some (m\<lparr>samples := []\<rparr>))) = None \<and>
   sum_memory (phase_summary ep c result (Some (m\<lparr>samples := []\<rparr>))) = None \<and>
   sum_cpu (phase_summary ep c result (Some (m\<lparr>samples := s # ss\<rparr>))) =
     Some (sum_list (map cpu (s # ss)) / real (length (s # ss))) \<and>
   sum_memory (phase_summary ep c result (Some (m\<lparr>samples := s # ss\<rparr>))) =
     Some (sum_list (map memory (s # ss)) / real (length (s # ss)))"
proof -
  have empty: "computeAverages [] = None"
    by (simp add: computeAverages_def)
  have mean: "computeAverages (s # ss) =
     Some \<lparr>cpu = sum_list (map cpu (s # ss)) / real (length (s # ss)),
           memory = sum_list (map memory (s # ss)) / real (length (s # ss))\<rparr>"
    unfolding computeAverages_def Let_def reduce_sum by simp
  show ?thesis
    unfolding phase_summary_def Let_def
    by (simp add: empty mean del: sum_list.Cons list.map)
qed

theorem computeAverages_mean_witness:
  "computeAverages [\<lparr>cpu = 10, memory = 100\<rparr>, \<lparr>cpu = 30, memory = 300\<rparr>] =
     Some \<lparr>cpu = 20, memory = 200\<rparr>"
  using computeAverages_mean [of "\<lparr>cpu = 10, memory = 100\<rparr>" "[\<lparr>cpu = 30, memory = 300\<rparr>]"]
  by simp

subsection \<open>The reported 50th percentile\<close>

text \<open>
  C7. The reported 50th percentile should be the measurement's \<open>p50\<close> whenever the
  measurement has one. The code does not do so for a \<open>p50\<close> of 0 ms, as the load
  generator reports for a fast service: the value is there, yet the \<open>||\<close> chain
  passes it over and the record, and with it the table line for the 50th percentile,
  carries the mean of 0.5 ms.
\<close>

theorem latencyP50_zero_p50_reports_mean:
  "lat_p50 (latency zero_p50_result) = JNum 0 \<and>
   latencyP50 (phase_summary register_ep 1 zero_p50_result None) = JNum (1 / 2) \<and>
   latencyP50 (phase_summary register_ep 1 zero_p50_result None) \<noteq>
     lat_p50 (latency zero_p50_result) \<and>
   print_summary (phase_summary register_ep 1 zero_p50_result None) =
     ([PrintSummary (phase_summary register_ep 1 zero_p50_result None)], Inr ())"
  by (simp add: phase_summary_def zero_p50_result_def js_or_def print_summary_def)

subsection \<open>The readiness check\<close>

lemma waitForServer_returns: "waitForServer env = ([HttpGet (BASE_URL env)], Inr ())"
  unfolding waitForServer_def
  by (subst waitForServer_from.simps) (simp add: probe_def split: sum.splits)

text \<open>
  C2. The readiness check should fail after its retry budget when no HTTP response ever
  arrives. The code does not: with every probe unanswered, \<open>waitForServer\<close> issues one
  request and returns normally, without a retry, a sleep or an error.
\<close>

theorem waitForServer_down:
  "(\<forall>i. http_get down_env i = NoResponse) \<and>
   waitForServer down_env = ([HttpGet ''http://localhost:8080''], Inr ())"
  by (simp add: waitForServer_returns down_env_def good_env_def BASE_URL_def)

subsection \<open>The preflight chain\<close>

lemma bind_io_simps:
  "bind_io (tr, Inl e) f = (tr, Inl e)"
  "bind_io (tr, Inr x) f = prepend tr (f x)"
  by (simp_all add: bind_io_def prepend_def split: prod.splits)

lemma get_prop_field:
  "get_prop v k = (if v = JUndefined \<or> v = JNull then Inl TypeError else Inr (field v k))"
  by (cases v) (simp_all add: field_def split: option.splits)

lemmas chain_defs =
  preflight_chain_def register_step_def proof_step_def verify_step_def axios_post_def
  axios_request_def lift_def ret_def chain_posts_def step_failed_def step_error_def
  bind_io_simps prepend_def body_of_def get_prop_field

lemma preflight_chain_form:
  "preflight_chain env =
     (if step_failed (register_step env)
      then (take 1 (chain_posts env), Inl (step_error (register_step env)))
      else if step_failed (proof_step env)
      then (take 2 (chain_posts env), Inl (step_error (proof_step env)))
      else if step_failed (verify_step env)
      then (chain_posts env, Inl (step_error (verify_step env)))
      else if \<not> truthy (field (body_of (verify_step env)) ''valid'')
      then (chain_posts env,
            Inl (Error ''Initial verification failed; proof or commitment invalid''))
      else (chain_posts env,
            Inr \<lparr>fx_secretHex = field (body_of (register_step env)) ''secret'',
                 fx_commitment = field (body_of (register_step env)) ''commitment'',
                 fx_proof = field (body_of (proof_step env)) ''proof''\<rparr>))"
proof (cases "register_step env")
  case NoResponse
  then show ?thesis by (simp add: chain_defs)
next
  case r: (Response s1 d1)
  show ?thesis
  proof (cases "s1 < 200 \<or> 300 \<le> s1 \<or> d1 = JUndefined \<or> d1 = JNull")
    case True
    with r show ?thesis by (auto simp add: chain_defs)
  next
    case ok1: False
    show ?thesis
    proof (cases "proof_step env")
      case NoResponse
      with r ok1 show ?thesis by (simp add: chain_defs)
    next
      case p: (Response s2 d2)
      show ?thesis
      proof (cases "s2 < 200 \<or> 300 \<le> s2 \<or> d2 = JUndefined \<or> d2 = JNull")
        case True
        with r ok1 p show ?thesis by (auto simp add: chain_defs)
      next
        case ok2: False
        show ?thesis
        proof (cases "verify_step env")
          case NoResponse
          with r ok1 p ok2 show ?thesis by (simp add: chain_defs)
        next
          case v: (Response s3 d3)
          with r ok1 p ok2 show ?thesis by (auto simp add: chain_defs)
        qed
      qed
    qed
  qed
qed


lemma preflight_failed:
  assumes "chain_failed env"
  shows "preflight env =
    (take (chain_length env) (chain_posts env) @
       [ConsoleError ''Failed to pre-compute proof / verification payloads''],
     Inl (chain_error env))"
  using assms
  by (auto simp add: preflight_def preflight_chain_form chain_failed_def chain_error_def
      chain_length_def chain_posts_def)

lemma preflight_passed:
  assumes "\<not> chain_failed env"
  shows "\<exists>fx. preflight env = (chain_posts env, Inr fx)"
  using assms
  by (simp add: preflight_def preflight_chain_form chain_failed_def)

lemma no_load_chain_posts: "\<not> list_ex is_load (take n (chain_posts env))"
  by (cases n; cases "n - 1"; cases "n - 2") (simp_all add: chain_posts_def)

text \<open>
  C1, as stated, fails for a missing field: the registration answer below has no
  \<open>secret\<close> field, the script reads \<open>undefined\<close> without an exception, and the run
  goes on to all 18 load phases and ends with status 0.
\<close>

theorem missing_secret_counterexample:
  "get_prop (body_of (register_step no_secret_env)) ''secret'' = Inr JUndefined \<and>
   \<not> step_failed (register_step no_secret_env) \<and>
   exit_status (main no_secret_env) = 0 \<and>
   length (produced (main no_secret_env)) = 18 \<and>
   list_ex is_load (events (main no_secret_env))"
  by code_simp

text \<open>
  C1, amended. The preflight chain fails exactly when one of its three requests gets no
  response, a status outside 2xx or a response without a body, or when the \<open>valid\<close>
  field of the verification answer is falsy (false or absent). Then the run ends with
  status 1, after the readiness probe and the requests sent so far it writes the failure
  message and the error and exits, no load phase is run and no record is produced.
\<close>

theorem preflight_failure_aborts:
  "(chain_failed env \<longleftrightarrow> (\<exists>e. snd (preflight env) = Inl e)) \<and>
   (chain_failed env \<longrightarrow>
      exit_status (main env) = 1 \<and> produced (main env) = [] \<and>
      \<not> list_ex is_load (events (main env)) \<and>
      events (main env) =
        HttpGet (BASE_URL env) # take (chain_length env) (chain_posts env) @
        [ConsoleError ''Failed to pre-compute proof / verification payloads'',
         ConsoleErrorObj (chain_error env), ProcessExit 1])"
proof -
  have iff: "chain_failed env \<longleftrightarrow> (\<exists>e. snd (preflight env) = Inl e)"
  proof (cases "chain_failed env")
    case True
    then show ?thesis by (simp add: preflight_failed)
  next
    case False
    from preflight_passed [OF False] obtain fx where "preflight env = (chain_posts env, Inr fx)" ..
    with False show ?thesis by simp
  qed
  have abort: "exit_status (main env) = 1 \<and> produced (main env) = [] \<and>
      \<not> list_ex is_load (events (main env)) \<and>
      events (main env) =
        HttpGet (BASE_URL env) # take (chain_length env) (chain_posts env) @
        [ConsoleError ''Failed to pre-compute proof / verification payloads'',
         ConsoleErrorObj (chain_error env), ProcessExit 1]" if "chain_failed env"
    using that
    by (simp add: main_def main_body_def waitForServer_returns preflight_failed
        no_load_chain_posts)
  from iff abort show ?thesis by blast
qed

lemma invalid_env_failed: "chain_failed invalid_env"
  by (simp add: chain_failed_def verify_step_def invalid_env_def good_env_def BASE_URL_def
      verify_invalid_def body_of_def field_def)

theorem preflight_failure_aborts_witness:
  "chain_failed invalid_env \<and> exit_status (main invalid_env) = 1 \<and>
   produced (main invalid_env) = [] \<and> \<not> list_ex is_load (events (main invalid_env)) \<and>
   chain_error invalid_env =
     Error ''Initial verification failed; proof or commitment invalid''"
proof -
  have err: "chain_error invalid_env =
     Error ''Initial verification failed; proof or commitment invalid''"
    by code_simp
  from preflight_failure_aborts [of invalid_env] invalid_env_failed err
  show ?thesis by blast
qed

subsection \<open>Facts about a phase and about the trace\<close>

lemma run_phase_no_pid:
  "\<not> pid_truthy pid \<Longrightarrow>
   run_phase env pid ep c =
     ([RunAutocannon \<lparr>connections = c, duration = TEST_DURATION, requests = ep_requests ep\<rparr>],
      case autocannon env \<lparr>connections = c, duration = TEST_DURATION, requests = ep_requests ep\<rparr> of
        Inl e \<Rightarrow> Inl e
      | Inr result \<Rightarrow> Inr (phase_summary ep c result None))"
  by (cases pid) (simp_all add: run_phase_def Let_def split: sum.splits)

lemma phase_summary_key: "summary_key (phase_summary ep c result mon) = (ep_name ep, c)"
  by (simp add: summary_key_def phase_summary_def Let_def)

lemma run_phase_key: "run_phase env pid ep c = (tr, Inr s) \<Longrightarrow> summary_key s = (ep_name ep, c)"
  by (auto simp: run_phase_def Let_def phase_summary_key split: sum.splits)

lemma run_phase_loads:
  "loads (fst (run_phase env pid ep c)) =
     [\<lparr>connections = c, duration = TEST_DURATION, requests = ep_requests ep\<rparr>]"
  by (simp add: run_phase_def Let_def loads_def split: sum.splits option.splits)

lemma loads_append: "loads (a @ b) = loads a @ loads b"
  by (simp add: loads_def)

lemma loads_Cons: "loads (ev # tr) = load_of ev @ loads tr"
  by (simp add: loads_def)

lemma sweep_levels_keys:
  "sweep_levels env pid ep cs acc = (tr, acc', None) \<Longrightarrow>
   map summary_key acc' = map summary_key acc @ map (Pair (ep_name ep)) cs"
proof (induction cs arbitrary: acc tr)
  case Nil
  then show ?case by simp
next
  case (Cons c cs)
  then show ?case
    by (auto split: prod.splits sum.splits dest!: run_phase_key)
qed

lemma sweep_keys:
  "sweep env pid eps acc = (tr, acc', None) \<Longrightarrow>
   map summary_key acc' =
     map summary_key acc @ List.product (map ep_name eps) CONCURRENCY_LEVELS"
proof (induction eps arbitrary: acc tr)
  case Nil
  then show ?case by simp
next
  case (Cons ep eps)
  then show ?case
    by (auto split: prod.splits option.splits dest!: sweep_levels_keys)
qed

lemma sweep_levels_no_pid:
  "\<not> pid_truthy pid \<Longrightarrow> sweep_levels env pid ep cs acc = (tr, acc', r) \<Longrightarrow>
   list_all no_resources acc \<Longrightarrow>
   list_all no_resources acc' \<and> \<not> list_ex is_monitor_start tr"
proof (induction cs arbitrary: acc tr)
  case Nil
  then show ?case by simp
next
  case (Cons c cs)
  show ?case
  proof (cases "autocannon env \<lparr>connections = c, duration = TEST_DURATION, requests = ep_requests ep\<rparr>")
    case (Inl e)
    with Cons.prems show ?thesis by (auto simp add: run_phase_no_pid)
  next
    case (Inr result)
    obtain tr' where rest: "sweep_levels env pid ep cs (acc @ [phase_summary ep c result None]) = (tr', acc', r)"
      and tr: "tr = RunAutocannon \<lparr>connections = c, duration = TEST_DURATION, requests = ep_requests ep\<rparr> # tr'"
      using Cons.prems Inr by (auto simp add: run_phase_no_pid split: prod.splits)
    have "no_resources (phase_summary ep c result None)"
      by (simp add: no_resources_def phase_summary_def)
    with Cons.prems(3) have "list_all no_resources (acc @ [phase_summary ep c result None])"
      by simp
    from Cons.IH [OF Cons.prems(1) rest this] tr show ?thesis by simp
  qed
qed

lemma sweep_no_pid:
  "\<not> pid_truthy pid \<Longrightarrow> sweep env pid eps acc = (tr, acc', r) \<Longrightarrow>
   list_all no_resources acc \<Longrightarrow>
   list_all no_resources acc' \<and> \<not> list_ex is_monitor_start tr"
proof (induction eps arbitrary: acc tr)
  case Nil
  then show ?case by simp
next
  case (Cons ep eps)
  obtain t1 s1 r1 where lv: "sweep_levels env pid ep CONCURRENCY_LEVELS acc = (t1, s1, r1)"
    by (cases "sweep_levels env pid ep CONCURRENCY_LEVELS acc") auto
  from sweep_levels_no_pid [OF Cons.prems(1) lv Cons.prems(3)]
  have s1: "list_all no_resources s1" and t1: "\<not> list_ex is_monitor_start t1" by simp_all
  show ?case
  proof (cases r1)
    case (Some e)
    with lv Cons.prems(2) s1 t1 show ?thesis by simp
  next
    case None
    obtain t2 where rest: "sweep env pid eps s1 = (t2, acc', r)" and tr: "tr = t1 @ t2"
      using Cons.prems(2) lv None by (auto split: prod.splits)
    from Cons.IH [OF Cons.prems(1) rest s1] tr t1 show ?thesis by simp
  qed
qed

lemma print_table_events:
  "\<not> list_ex is_monitor_start (fst (print_table ss)) \<and> loads (fst (print_table ss)) = []"
proof (induction ss)
  case Nil
  then show ?case by (simp add: loads_def)
next
  case (Cons s ss)
  then show ?case
    by (auto simp: print_summary_def prepend_def loads_def split: prod.splits sum.splits)
qed

lemma findServerPid_events:
  "\<exists>tr p. findServerPid env = (tr, Inr p) \<and> \<not> list_ex is_monitor_start tr \<and> loads tr = []"
  by (simp add: findServerPid_def Let_def loads_def split: sum.splits)

lemma preflight_events:
  "\<not> list_ex is_monitor_start (fst (preflight env)) \<and> loads (fst (preflight env)) = []"
proof (cases "chain_failed env")
  case True
  have "\<not> list_ex is_monitor_start (take n (chain_posts env))" for n
    by (cases n; cases "n - 1"; cases "n - 2") (simp_all add: chain_posts_def)
  moreover have "loads (take n (chain_posts env)) = []" for n
    by (cases n; cases "n - 1"; cases "n - 2") (simp_all add: chain_posts_def loads_def)
  ultimately show ?thesis
    by (simp add: preflight_failed [OF True] loads_append) (simp add: loads_def)
next
  case False
  from preflight_passed [OF False] obtain fx where "preflight env = (chain_posts env, Inr fx)" ..
  then show ?thesis by (simp add: chain_posts_def loads_def)
qed

lemma closing_events_quiet:
  "\<not> list_ex is_monitor_start (closing_events acc r) \<and> loads (closing_events acc r) = []"
  using print_table_events [of acc]
  by (cases r; cases "print_table acc"; cases "snd (print_table acc)")
     (auto simp add: closing_events_def loads_def)

lemma pid_warning_quiet:
  "\<not> list_ex is_monitor_start (pid_warning pid) \<and> loads (pid_warning pid) = []"
  by (simp add: pid_warning_def loads_def)

lemma main_after_preflight:
  assumes pf: "preflight env = (tr1, Inr fx)"
    and pid: "findServerPid env = (tr2, Inr pid)"
    and sw: "sweep env pid (endpoints env fx) [] = (tr3, acc, r)"
  shows "produced (main env) = acc \<and>
    events (main env) =
      HttpGet (BASE_URL env) # tr1 @ tr2 @ pid_warning pid @ tr3 @ closing_events acc r \<and>
    (exit_status (main env) = 0 \<longrightarrow> r = None)"
  using assms
  by (cases r; cases "print_table acc"; cases "snd (print_table acc)")
     (auto simp add: main_def main_body_def waitForServer_returns Let_def
        pid_warning_def closing_events_def)

subsection \<open>Runs without a process identifier\<close>

lemma main_aborted:
  assumes "chain_failed env"
  shows "exit_status (main env) = 1 \<and> produced (main env) = [] \<and>
      events (main env) =
        HttpGet (BASE_URL env) # take (chain_length env) (chain_posts env) @
        [ConsoleError ''Failed to pre-compute proof / verification payloads'',
         ConsoleErrorObj (chain_error env), ProcessExit 1]"
  using assms
  by (simp add: main_def main_body_def waitForServer_returns preflight_failed)

lemma chain_posts_quiet:
  "\<not> list_ex is_monitor_start (take n (chain_posts env)) \<and> loads (take n (chain_posts env)) = []"
  by (cases n; cases "n - 1"; cases "n - 2") (simp_all add: chain_posts_def loads_def)

lemma findServerPid_total: "\<exists>tr p. findServerPid env = (tr, Inr p)"
  using findServerPid_events [of env] by blast

text \<open>
  C4. When \<open>findServerPid\<close> returns \<open>null\<close>, no resource monitor is started anywhere in
  the run, and every record the run produces has \<open>null\<close>, and so not 0, in its CPU and
  memory averages.
\<close>

theorem no_pid_no_resources:
  "snd (findServerPid env) = Inr None \<Longrightarrow>
   \<not> list_ex is_monitor_start (events (main env)) \<and>
   (\<forall>s \<in> set (produced (main env)).
      sum_cpu s = None \<and> sum_memory s = None \<and> sum_cpu s \<noteq> Some 0 \<and> sum_memory s \<noteq> Some 0)"
proof (cases "chain_failed env")
  case True
  from main_aborted [OF True] chain_posts_quiet [of "chain_length env" env]
  show ?thesis by simp
next
  case False
  assume nopid: "snd (findServerPid env) = Inr None"
  from preflight_passed [OF False] obtain fx where pf: "preflight env = (chain_posts env, Inr fx)" ..
  from findServerPid_events [of env] nopid obtain tr2
    where fp: "findServerPid env = (tr2, Inr None)" and q2: "\<not> list_ex is_monitor_start tr2"
    by auto
  obtain tr3 acc r where sw: "sweep env None (endpoints env fx) [] = (tr3, acc, r)"
    by (cases "sweep env None (endpoints env fx) []") auto
  from sweep_no_pid [OF _ sw]
  have q3: "list_all no_resources acc" "\<not> list_ex is_monitor_start tr3" by simp_all
  from main_after_preflight [OF pf fp sw]
  have prod: "produced (main env) = acc"
    and ev: "events (main env) =
      HttpGet (BASE_URL env) # chain_posts env @ tr2 @ pid_warning None @ tr3 @ closing_events acc r"
    by simp_all
  have q1: "\<not> list_ex is_monitor_start (chain_posts env)"
    by (simp add: chain_posts_def)
  from q1 q2 q3(2) closing_events_quiet [of acc r] pid_warning_quiet [of None]
  have "\<not> list_ex is_monitor_start (events (main env))"
    by (simp add: ev)
  moreover from q3(1) have "\<forall>s \<in> set acc. sum_cpu s = None \<and> sum_memory s = None"
    by (simp add: list_all_iff no_resources_def)
  ultimately show ?thesis by (simp add: prod)
qed

lemma no_pid_env_pid: "snd (findServerPid no_pid_env) = Inr None"
  by (simp add: findServerPid_def no_pid_env_def good_env_def BASE_URL_def)

theorem no_pid_no_resources_witness:
  "snd (findServerPid no_pid_env) = Inr None \<and>
   \<not> list_ex is_monitor_start (events (main no_pid_env)) \<and>
   list_all no_resources (produced (main no_pid_env)) \<and>
   length (produced (main no_pid_env)) = 18"
proof -
  have len: "length (produced (main no_pid_env)) = 18"
    by code_simp
  from no_pid_no_resources [OF no_pid_env_pid] no_pid_env_pid len
  show ?thesis by (simp add: list_all_iff no_resources_def)
qed

subsection \<open>The number of records\<close>

lemma endpoints_names:
  "map ep_name (endpoints env fx) = [''register'', ''generateProof'', ''verifyProof'']"
  by (simp add: endpoints_def)

text \<open>
  C8. A sweep that runs to its end leaves one record per pair of endpoint and concurrency
  level, in the order of the loops: as many as endpoints times levels, 18 for the three
  endpoints and the six levels of the script. A run that ends with status 0 has produced
  exactly these 18.
\<close>

theorem sweep_record_count:
  "(sweep env pid (endpoints env fx) [] = (tr, acc, None) \<longrightarrow>
      length acc = length (endpoints env fx) * length CONCURRENCY_LEVELS \<and>
      length acc = 18 \<and>
      map summary_key acc =
        List.product [''register'', ''generateProof'', ''verifyProof''] [1, 10, 15, 20, 25, 30]) \<and>
   (exit_status (main env) = 0 \<longrightarrow>
      length (produced (main env)) = 18 \<and>
      map summary_key (produced (main env)) =
        List.product [''register'', ''generateProof'', ''verifyProof''] [1, 10, 15, 20, 25, 30])"
proof -
  have keys: "map summary_key acc =
        List.product [''register'', ''generateProof'', ''verifyProof''] [1, 10, 15, 20, 25, 30]"
    if "sweep env pid (endpoints env fx) [] = (tr, acc, None)" for pid fx tr acc
    using sweep_keys [OF that] by (simp add: endpoints_names CONCURRENCY_LEVELS_def)
  have len: "length acc = 18 \<and> length acc = length (endpoints env fx) * length CONCURRENCY_LEVELS"
    if "sweep env pid (endpoints env fx) [] = (tr, acc, None)" for pid fx tr acc
  proof -
    from keys [OF that] have "length (map summary_key acc) = 18" by simp
    then show ?thesis by (simp add: endpoints_def CONCURRENCY_LEVELS_def)
  qed
  have run: "length (produced (main env)) = 18 \<and>
      map summary_key (produced (main env)) =
        List.product [''register'', ''generateProof'', ''verifyProof''] [1, 10, 15, 20, 25, 30]"
    if ok: "exit_status (main env) = 0"
  proof -
    have nf: "\<not> chain_failed env"
      using main_aborted [of env] ok by auto
    from preflight_passed [OF nf] obtain fx where pf: "preflight env = (chain_posts env, Inr fx)" ..
    from findServerPid_total [of env] obtain tr2 p where fp: "findServerPid env = (tr2, Inr p)"
      by blast
    obtain tr3 acc r where sw: "sweep env p (endpoints env fx) [] = (tr3, acc, r)"
      by (cases "sweep env p (endpoints env fx) []") auto
    from main_after_preflight [OF pf fp sw] ok
    have "produced (main env) = acc" "r = None" by simp_all
    with sw keys [of p fx tr3 acc] len [of p fx tr3 acc] show ?thesis by simp
  qed
  from keys len run show ?thesis by blast
qed

theorem sweep_record_count_witness:
  "exit_status (main good_env) = 0 \<and> length (produced (main good_env)) = 18"
proof -
  have ok: "exit_status (main good_env) = 0" by code_simp
  from sweep_record_count [of good_env] ok show ?thesis by blast
qed

subsection \<open>Request payloads\<close>

lemma preflight_fixture:
  assumes "preflight env = (tr1, Inr fx)"
  shows "fx = \<lparr>fx_secretHex = field (body_of (register_step env)) ''secret'',
               fx_commitment = field (body_of (register_step env)) ''commitment'',
               fx_proof = field (body_of (proof_step env)) ''proof''\<rparr>"
  using assms
  by (simp add: preflight_def preflight_chain_form split: if_splits)

lemma sweep_levels_loads:
  "sweep_levels env pid ep cs acc = (tr, acc', r) \<Longrightarrow>
   \<forall>opts \<in> set (loads tr). requests opts = ep_requests ep"
proof (induction cs arbitrary: acc tr)
  case Nil
  then show ?case by (simp add: loads_def)
next
  case (Cons c cs)
  obtain t1 r1 where ph: "run_phase env pid ep c = (t1, r1)"
    by (cases "run_phase env pid ep c") auto
  from run_phase_loads [of env pid ep c] ph
  have l1: "loads t1 = [\<lparr>connections = c, duration = TEST_DURATION, requests = ep_requests ep\<rparr>]"
    by simp
  show ?case
  proof (cases r1)
    case (Inl e)
    with Cons.prems ph l1 show ?thesis by auto
  next
    case (Inr s)
    obtain t2 where rest: "sweep_levels env pid ep cs (acc @ [s]) = (t2, acc', r)"
      and tr: "tr = t1 @ t2"
      using Cons.prems ph Inr by (auto split: prod.splits)
    from Cons.IH [OF rest] l1 tr show ?thesis by (simp add: loads_append)
  qed
qed

lemma sweep_loads:
  "sweep env pid eps acc = (tr, acc', r) \<Longrightarrow>
   \<forall>opts \<in> set (loads tr). \<exists>ep \<in> set eps. requests opts = ep_requests ep"
proof (induction eps arbitrary: acc tr)
  case Nil
  then show ?case by (simp add: loads_def)
next
  case (Cons ep eps)
  obtain t1 s1 r1 where lv: "sweep_levels env pid ep CONCURRENCY_LEVELS acc = (t1, s1, r1)"
    by (cases "sweep_levels env pid ep CONCURRENCY_LEVELS acc") auto
  note l1 = sweep_levels_loads [OF lv]
  show ?case
  proof (cases r1)
    case (Some e)
    with lv Cons.prems l1 show ?thesis by auto
  next
    case None
    obtain t2 where rest: "sweep env pid eps s1 = (t2, acc', r)" and tr: "tr = t1 @ t2"
      using Cons.prems lv None by (auto split: prod.splits)
    from Cons.IH [OF rest] l1 tr show ?thesis by (auto simp add: loads_append)
  qed
qed

lemma main_loads:
  assumes pf: "preflight env = (tr1, Inr fx)"
  shows "\<forall>opts \<in> set (loads (events (main env))).
           \<exists>ep \<in> set (endpoints env fx). requests opts = ep_requests ep"
proof -
  from findServerPid_events [of env] obtain tr2 p
    where fp: "findServerPid env = (tr2, Inr p)" and q2: "loads tr2 = []" by blast
  obtain tr3 acc r where sw: "sweep env p (endpoints env fx) [] = (tr3, acc, r)"
    by (cases "sweep env p (endpoints env fx) []") auto
  from preflight_events [of env] pf have q1: "loads tr1 = []" by simp
  from main_after_preflight [OF pf fp sw]
  have "events (main env) =
      HttpGet (BASE_URL env) # tr1 @ tr2 @ pid_warning p @ tr3 @ closing_events acc r"
    by simp
  then have "loads (events (main env)) = loads tr3"
    using q1 q2 closing_events_quiet [of acc r] pid_warning_quiet [of p]
    by (simp add: loads_append loads_Cons)
  with sweep_loads [OF sw] show ?thesis by simp
qed

lemma sweep_levels_loads_all:
  "sweep_levels env pid ep cs acc = (tr, acc', None) \<Longrightarrow>
   loads tr =
     map (\<lambda>c. \<lparr>connections = c, duration = TEST_DURATION, requests = ep_requests ep\<rparr>) cs"
proof (induction cs arbitrary: acc tr)
  case Nil
  then show ?case by (simp add: loads_def)
next
  case (Cons c cs)
  obtain t1 r1 where ph: "run_phase env pid ep c = (t1, r1)"
    by (cases "run_phase env pid ep c") auto
  from run_phase_loads [of env pid ep c] ph
  have l1: "loads t1 = [\<lparr>connections = c, duration = TEST_DURATION, requests = ep_requests ep\<rparr>]"
    by simp
  show ?case
  proof (cases r1)
    case (Inl e)
    with Cons.prems ph show ?thesis by simp
  next
    case (Inr s)
    obtain t2 where rest: "sweep_levels env pid ep cs (acc @ [s]) = (t2, acc', None)"
      and tr: "tr = t1 @ t2"
      using Cons.prems ph Inr by (auto split: prod.splits)
    from Cons.IH [OF rest] l1 tr show ?thesis by (simp add: loads_append)
  qed
qed

lemma sweep_loads_all:
  "sweep env pid eps acc = (tr, acc', None) \<Longrightarrow>
   loads tr =
     concat (map (\<lambda>ep. map (\<lambda>c. \<lparr>connections = c, duration = TEST_DURATION,
                                    requests = ep_requests ep\<rparr>) CONCURRENCY_LEVELS) eps)"
proof (induction eps arbitrary: acc tr)
  case Nil
  then show ?case by (simp add: loads_def)
next
  case (Cons ep eps)
  obtain t1 s1 r1 where lv: "sweep_levels env pid ep CONCURRENCY_LEVELS acc = (t1, s1, r1)"
    by (cases "sweep_levels env pid ep CONCURRENCY_LEVELS acc") auto
  show ?case
  proof (cases r1)
    case (Some e)
    with lv Cons.prems show ?thesis by simp
  next
    case None
    obtain t2 where rest: "sweep env pid eps s1 = (t2, acc', None)" and tr: "tr = t1 @ t2"
      using Cons.prems lv None by (auto split: prod.splits)
    from sweep_levels_loads_all [OF lv [unfolded None]] Cons.IH [OF rest] tr
    show ?thesis by (simp add: loads_append)
  qed
qed

lemma main_loads_all:
  assumes pf: "preflight env = (tr1, Inr fx)" and ok: "exit_status (main env) = 0"
  shows "loads (events (main env)) =
     concat (map (\<lambda>ep. map (\<lambda>c. \<lparr>connections = c, duration = TEST_DURATION,
                                    requests = ep_requests ep\<rparr>) CONCURRENCY_LEVELS)
                 (endpoints env fx))"
proof -
  from findServerPid_events [of env] obtain tr2 p
    where fp: "findServerPid env = (tr2, Inr p)" and q2: "loads tr2 = []" by blast
  obtain tr3 acc r where sw: "sweep env p (endpoints env fx) [] = (tr3, acc, r)"
    by (cases "sweep env p (endpoints env fx) []") auto
  from preflight_events [of env] pf have q1: "loads tr1 = []" by simp
  from main_after_preflight [OF pf fp sw] ok
  have ev: "events (main env) =
      HttpGet (BASE_URL env) # tr1 @ tr2 @ pid_warning p @ tr3 @ closing_events acc r"
    and r: "r = None"
    by simp_all
  from ev have "loads (events (main env)) = loads tr3"
    using q1 q2 closing_events_quiet [of acc r] pid_warning_quiet [of p]
    by (simp add: loads_append loads_Cons)
  with sweep_loads_all [OF sw [unfolded r]] show ?thesis by simp
qed

text \<open>
  C9. For every request of a registration phase the load generator calls the template's
  \<open>setupRequest\<close>, which sets the body to the serialised user built at that moment: the
  object with the e-mail address \<open>user-\<close>, that request's own random draw,
  \<open>@example.com\<close>, and the four constant attributes. Two draws give the same user only
  when they are the same draw, so with a serialiser that keeps different values apart the
  bodies of two requests are equal only for equal draws. The proof and verify templates
  have no \<open>setupRequest\<close>: whatever the request, the body is the one string
  serialised, once, from the fixture's secret and commitment, and from its commitment and
  proof. After a successful preflight the fixture consists of the fields read from the
  preflight answers, every load run of the sweep is given the templates of one of these
  three endpoints, and in a run that ends with status 0 the load runs are, in order, the
  six levels of each endpoint with that endpoint's templates.
\<close>

theorem request_payloads:
  "map ep_name (endpoints env fx) = [''register'', ''generateProof'', ''verifyProof''] \<and>
   map (\<lambda>t. resolve_request t rnd) (ep_requests (endpoints env fx ! 0)) =
     [\<lparr>req_method = ''POST'', req_path = ''/register'',
       req_headers = [(''Content-Type'', ''application/json'')],
       req_body = Some (JSON_stringify env
         (JObj [(''email'', JStr (''user-'' @ rnd @ ''@example.com'')),
                (''name'', JStr ''Alice Doe''),
                (''age'', JNum 35),
                (''country'', JStr ''US''),
                (''dob'', JStr ''1989-05-17'')]))\<rparr>] \<and>
   (buildUser rnd = buildUser rnd' \<longleftrightarrow> rnd = rnd') \<and>
   (inj (JSON_stringify env) \<longrightarrow>
      (map (\<lambda>t. req_body (resolve_request t rnd)) (ep_requests (endpoints env fx ! 0)) =
       map (\<lambda>t. req_body (resolve_request t rnd')) (ep_requests (endpoints env fx ! 0))
         \<longleftrightarrow> rnd = rnd')) \<and>
   map (\<lambda>t. resolve_request t rnd) (ep_requests (endpoints env fx ! 1)) =
     [\<lparr>req_method = ''POST'', req_path = ''/proof'',
       req_headers = [(''Content-Type'', ''application/json'')],
       req_body = Some (JSON_stringify env
         (JObj [(''secret_hex'', fx_secretHex fx), (''commitment'', fx_commitment fx)]))\<rparr>] \<and>
   map (\<lambda>t. resolve_request t rnd) (ep_requests (endpoints env fx ! 2)) =
     [\<lparr>req_method = ''POST'', req_path = ''/verify'',
       req_headers = [(''Content-Type'', ''application/json'')],
       req_body = Some (JSON_stringify env
         (JObj [(''commitment'', fx_commitment fx), (''proof'', fx_proof fx)]))\<rparr>] \<and>
   map setupRequest (ep_requests (endpoints env fx ! 1)) = [None] \<and>
   map setupRequest (ep_requests (endpoints env fx ! 2)) = [None] \<and>
   (preflight env = (tr1, Inr fx) \<longrightarrow>
      fx = \<lparr>fx_secretHex = field (body_of (register_step env)) ''secret'',
            fx_commitment = field (body_of (register_step env)) ''commitment'',
            fx_proof = field (body_of (proof_step env)) ''proof''\<rparr> \<and>
      (\<forall>opts \<in> set (loads (events (main env))).
         \<exists>ep \<in> set (endpoints env fx). requests opts = ep_requests ep) \<and>
      (exit_status (main env) = 0 \<longrightarrow>
         loads (events (main env)) =
           concat (map (\<lambda>ep. map (\<lambda>c. \<lparr>connections = c, duration = TEST_DURATION,
                                          requests = ep_requests ep\<rparr>) CONCURRENCY_LEVELS)
                       (endpoints env fx))))"
proof -
  have names: "map ep_name (endpoints env fx) = [''register'', ''generateProof'', ''verifyProof'']"
    by (simp add: endpoints_def)
  have reg: "map (\<lambda>t. resolve_request t r) (ep_requests (endpoints env fx ! 0)) =
     [\<lparr>req_method = ''POST'', req_path = ''/register'',
       req_headers = [(''Content-Type'', ''application/json'')],
       req_body = Some (JSON_stringify env
         (JObj [(''email'', JStr (''user-'' @ r @ ''@example.com'')),
                (''name'', JStr ''Alice Doe''),
                (''age'', JNum 35),
                (''country'', JStr ''US''),
                (''dob'', JStr ''1989-05-17'')]))\<rparr>]" for r
    by (simp add: endpoints_def resolve_request_def buildUser_def)
  have fresh: "buildUser rnd = buildUser rnd' \<longleftrightarrow> rnd = rnd'"
    by (simp add: buildUser_def)
  have apart: "map (\<lambda>t. req_body (resolve_request t rnd)) (ep_requests (endpoints env fx ! 0)) =
       map (\<lambda>t. req_body (resolve_request t rnd')) (ep_requests (endpoints env fx ! 0))
         \<longleftrightarrow> rnd = rnd'" if "inj (JSON_stringify env)"
    using that by (auto simp add: endpoints_def resolve_request_def buildUser_def dest: injD)
  have prv: "map (\<lambda>t. resolve_request t rnd) (ep_requests (endpoints env fx ! 1)) =
     [\<lparr>req_method = ''POST'', req_path = ''/proof'',
       req_headers = [(''Content-Type'', ''application/json'')],
       req_body = Some (JSON_stringify env
         (JObj [(''secret_hex'', fx_secretHex fx), (''commitment'', fx_commitment fx)]))\<rparr>]"
    by (simp add: endpoints_def resolve_request_def)
  have ver: "map (\<lambda>t. resolve_request t rnd) (ep_requests (endpoints env fx ! 2)) =
     [\<lparr>req_method = ''POST'', req_path = ''/verify'',
       req_headers = [(''Content-Type'', ''application/json'')],
       req_body = Some (JSON_stringify env
         (JObj [(''commitment'', fx_commitment fx), (''proof'', fx_proof fx)]))\<rparr>]"
    by (simp add: endpoints_def resolve_request_def)
  have nosetup: "map setupRequest (ep_requests (endpoints env fx ! 1)) = [None]"
    "map setupRequest (ep_requests (endpoints env fx ! 2)) = [None]"
    by (simp_all add: endpoints_def)
  from names reg [of rnd] fresh apart prv ver nosetup preflight_fixture [of env tr1 fx]
    main_loads [of env tr1 fx] main_loads_all [of env tr1 fx]
  show ?thesis by blast
qed

lemma good_env_preflight: "snd (preflight good_env) =
  Inr \<lparr>fx_secretHex = JStr ''0xAA'', fx_commitment = JStr ''123'',
       fx_proof = JObj [(''a'', JStr ''1'')]\<rparr>"
  by code_simp

lemma good_env_bodies:
  "json_text (JObj [(''email'', JStr ''user-k3x9@example.com''),
                    (''name'', JStr ''Alice Doe''), (''age'', JNum 35),
                    (''country'', JStr ''US''), (''dob'', JStr ''1989-05-17'')]) =
     ''{\"email\":\"user-k3x9@example.com\",\"name\":\"Alice Doe\",\"age\":35,\"country\":\"US\",\"dob\":\"1989-05-17\"}''"
  "json_text (JObj [(''email'', JStr ''user-p7q2@example.com''),
                    (''name'', JStr ''Alice Doe''), (''age'', JNum 35),
                    (''country'', JStr ''US''), (''dob'', JStr ''1989-05-17'')]) =
     ''{\"email\":\"user-p7q2@example.com\",\"name\":\"Alice Doe\",\"age\":35,\"country\":\"US\",\"dob\":\"1989-05-17\"}''"
  "json_text (JObj [(''secret_hex'', JStr ''0xAA''), (''commitment'', JStr ''123'')]) =
     ''{\"secret_hex\":\"0xAA\",\"commitment\":\"123\"}''"
  "json_text (JObj [(''commitment'', JStr ''123''), (''proof'', JObj [(''a'', JStr ''1'')])]) =
     ''{\"commitment\":\"123\",\"proof\":{\"a\":\"1\"}}''"
  by code_simp+

theorem request_payloads_witness:
  "map (\<lambda>t. req_body (resolve_request t ''k3x9''))
     (ep_requests (endpoints good_env
        \<lparr>fx_secretHex = JStr ''0xAA'', fx_commitment = JStr ''123'',
         fx_proof = JObj [(''a'', JStr ''1'')]\<rparr> ! 0)) =
     [Some ''{\"email\":\"user-k3x9@example.com\",\"name\":\"Alice Doe\",\"age\":35,\"country\":\"US\",\"dob\":\"1989-05-17\"}''] \<and>
   map (\<lambda>t. req_body (resolve_request t ''p7q2''))
     (ep_requests (endpoints good_env
        \<lparr>fx_secretHex = JStr ''0xAA'', fx_commitment = JStr ''123'',
         fx_proof = JObj [(''a'', JStr ''1'')]\<rparr> ! 0)) =
     [Some ''{\"email\":\"user-p7q2@example.com\",\"name\":\"Alice Doe\",\"age\":35,\"country\":\"US\",\"dob\":\"1989-05-17\"}''] \<and>
   map (\<lambda>t. req_body (resolve_request t ''k3x9''))
     (ep_requests (endpoints good_env
        \<lparr>fx_secretHex = JStr ''0xAA'', fx_commitment = JStr ''123'',
         fx_proof = JObj [(''a'', JStr ''1'')]\<rparr> ! 1)) =
     [Some ''{\"secret_hex\":\"0xAA\",\"commitment\":\"123\"}''] \<and>
   map (\<lambda>t. req_body (resolve_request t ''p7q2''))
     (ep_requests (endpoints good_env
        \<lparr>fx_secretHex = JStr ''0xAA'', fx_commitment = JStr ''123'',
         fx_proof = JObj [(''a'', JStr ''1'')]\<rparr> ! 1)) =
     [Some ''{\"secret_hex\":\"0xAA\",\"commitment\":\"123\"}''] \<and>
   map (\<lambda>t. req_body (resolve_request t ''k3x9''))
     (ep_requests (endpoints good_env
        \<lparr>fx_secretHex = JStr ''0xAA'', fx_commitment = JStr ''123'',
         fx_proof = JObj [(''a'', JStr ''1'')]\<rparr> ! 2)) =
     [Some ''{\"commitment\":\"123\",\"proof\":{\"a\":\"1\"}}''] \<and>
   length (loads (events (main good_env))) = 18 \<and>
   list_all (\<lambda>opts. list_ex (\<lambda>ep. requests opts = ep_requests ep)
       (endpoints good_env \<lparr>fx_secretHex = JStr ''0xAA'', fx_commitment = JStr ''123'',
         fx_proof = JObj [(''a'', JStr ''1'')]\<rparr>))
     (loads (events (main good_env)))"
proof -
  let ?fx = "\<lparr>fx_secretHex = JStr ''0xAA'', fx_commitment = JStr ''123'',
           fx_proof = JObj [(''a'', JStr ''1'')]\<rparr>"
  obtain tr1 where pf: "preflight good_env = (tr1, Inr ?fx)"
    using good_env_preflight by (cases "preflight good_env") auto
  have ok: "exit_status (main good_env) = 0"
    by code_simp
  have ser: "JSON_stringify good_env = json_text"
    by (simp add: good_env_def)
  note rp1 = request_payloads [of good_env ?fx "''k3x9''" "''k3x9''" tr1]
  note rp2 = request_payloads [of good_env ?fx "''p7q2''" "''p7q2''" tr1]
  have body: "map (\<lambda>t. req_body (resolve_request t r)) ts = map req_body (map (\<lambda>t. resolve_request t r) ts)"
    for r and ts :: "request_tpl list"
    by simp
  from rp1 have a1: "map (\<lambda>t. req_body (resolve_request t ''k3x9''))
       (ep_requests (endpoints good_env ?fx ! 0)) =
     [Some ''{\"email\":\"user-k3x9@example.com\",\"name\":\"Alice Doe\",\"age\":35,\"country\":\"US\",\"dob\":\"1989-05-17\"}'']"
    unfolding body by (simp add: ser good_env_bodies del: json_text.simps)
  from rp2 have a2: "map (\<lambda>t. req_body (resolve_request t ''p7q2''))
       (ep_requests (endpoints good_env ?fx ! 0)) =
     [Some ''{\"email\":\"user-p7q2@example.com\",\"name\":\"Alice Doe\",\"age\":35,\"country\":\"US\",\"dob\":\"1989-05-17\"}'']"
    unfolding body by (simp add: ser good_env_bodies del: json_text.simps)
  from rp1 have b1: "map (\<lambda>t. req_body (resolve_request t ''k3x9''))
       (ep_requests (endpoints good_env ?fx ! 1)) =
     [Some ''{\"secret_hex\":\"0xAA\",\"commitment\":\"123\"}'']"
    unfolding body by (simp add: ser good_env_bodies del: json_text.simps)
  from rp2 have b2: "map (\<lambda>t. req_body (resolve_request t ''p7q2''))
       (ep_requests (endpoints good_env ?fx ! 1)) =
     [Some ''{\"secret_hex\":\"0xAA\",\"commitment\":\"123\"}'']"
    unfolding body by (simp add: ser good_env_bodies del: json_text.simps)
  from rp1 have c1: "map (\<lambda>t. req_body (resolve_request t ''k3x9''))
       (ep_requests (endpoints good_env ?fx ! 2)) =
     [Some ''{\"commitment\":\"123\",\"proof\":{\"a\":\"1\"}}'']"
    unfolding body by (simp add: ser good_env_bodies del: json_text.simps)
  from rp1 pf ok have l: "loads (events (main good_env)) =
           concat (map (\<lambda>ep. map (\<lambda>c. \<lparr>connections = c, duration = TEST_DURATION,
                                          requests = ep_requests ep\<rparr>) CONCURRENCY_LEVELS)
                       (endpoints good_env ?fx))"
    by blast
  have n: "length (loads (events (main good_env))) = 18"
    unfolding l by (simp add: endpoints_def CONCURRENCY_LEVELS_def)
  from rp1 pf have d: "\<forall>opts \<in> set (loads (events (main good_env))).
      \<exists>ep \<in> set (endpoints good_env ?fx). requests opts = ep_requests ep"
    by blast
  from a1 a2 b1 b2 c1 n d show ?thesis unfolding list_all_iff list_ex_iff by blast
qed

subsection \<open>The resource monitor\<close>

lemma mon_step_pid: "mon_pid (mon_step env m ev) = mon_pid m"
  by (cases ev) (simp_all add: fire_def settle_def Let_def split: sum.splits)

lemma run_monitor_Nil: "run_monitor env [] m = m"
  by (simp add: run_monitor_def)

lemma run_monitor_Cons: "run_monitor env (ev # evs) m = run_monitor env evs (mon_step env m ev)"
  by (simp add: run_monitor_def)

lemma in_flight_settled: "set (take i xs @ drop (Suc i) xs) \<subseteq> set xs"
  by (auto dest: in_set_takeD in_set_dropD)

lemma length_settled: "i < length xs \<Longrightarrow> Suc (length (take i xs @ drop (Suc i) xs)) = length xs"
  by simp

text \<open>Where the samples of a monitor come from: lookups of its own process.\<close>

lemma run_monitor_origin:
  "set (in_flight (run_monitor env evs m)) \<subseteq> set (in_flight m) \<union> set (fired evs) \<and>
   (\<forall>s \<in> set (samples (run_monitor env evs m)).
      s \<in> set (samples m) \<or>
      (\<exists>t \<in> set (in_flight m) \<union> set (fired evs). pidusage env (mon_pid m) t = Inr s))"
proof (induction evs arbitrary: m rule: fired.induct)
  case 1
  then show ?case by (simp add: run_monitor_Nil)
next
  case (2 t evs)
  from "2.IH" [of "fire t m"] show ?case
    by (simp add: run_monitor_Cons fire_def split: if_splits) blast+
next
  case (3 i evs)
  show ?case
  proof (cases "i < length (in_flight m)")
    case False
    with "3.IH" [of m] show ?thesis by (simp add: run_monitor_Cons settle_def)
  next
    case True
    let ?m' = "settle env i m"
    have fl: "set (in_flight ?m') \<subseteq> set (in_flight m)"
      using in_flight_settled [of i "in_flight m"]
      by (simp add: settle_def Let_def split: sum.splits)
    have pid: "mon_pid ?m' = mon_pid m"
      by (simp add: settle_def Let_def split: sum.splits)
    have sm: "\<forall>s \<in> set (samples ?m'). s \<in> set (samples m) \<or>
        (\<exists>t \<in> set (in_flight m). pidusage env (mon_pid m) t = Inr s)"
      using True by (auto simp add: settle_def Let_def split: sum.splits)
    from "3.IH" [of ?m'] fl pid sm show ?thesis
      by (simp add: run_monitor_Cons) blast
  qed
qed

text \<open>Every firing accounts for at most one sample, and for exactly one when no lookup fails.\<close>

lemma run_monitor_count:
  "length (samples (run_monitor env evs m)) + length (in_flight (run_monitor env evs m)) \<le>
     length (samples m) + length (in_flight m) + length (fired evs) \<and>
   (timer_on m \<longrightarrow> timer_on (run_monitor env evs m)) \<and>
   (timer_on m \<and> (\<forall>t. \<not> isl (pidusage env (mon_pid m) t)) \<longrightarrow>
      length (samples (run_monitor env evs m)) + length (in_flight (run_monitor env evs m)) =
        length (samples m) + length (in_flight m) + length (fired evs))"
proof (induction evs arbitrary: m rule: fired.induct)
  case 1
  then show ?case by (simp add: run_monitor_Nil)
next
  case (2 t evs)
  from "2.IH" [of "fire t m"] show ?case
    by (simp add: run_monitor_Cons fire_def split: if_splits)
next
  case (3 i evs)
  show ?case
  proof (cases "i < length (in_flight m)")
    case False
    with "3.IH" [of m] show ?thesis by (simp add: run_monitor_Cons settle_def)
  next
    case True
    let ?m' = "settle env i m"
    have pid: "mon_pid ?m' = mon_pid m" and on: "timer_on ?m' = timer_on m"
      by (simp_all add: settle_def Let_def split: sum.splits)
    have le: "length (samples ?m') + length (in_flight ?m') \<le>
        length (samples m) + length (in_flight m)"
      using length_settled [OF True]
      by (simp add: settle_def Let_def split: sum.splits) linarith+
    have eq: "length (samples ?m') + length (in_flight ?m') =
        length (samples m) + length (in_flight m)"
      if "\<forall>t. \<not> isl (pidusage env (mon_pid m) t)"
    proof -
      from that have "\<not> isl (pidusage env (mon_pid m) (in_flight m ! i))"
        by blast
      then obtain s where "pidusage env (mon_pid m) (in_flight m ! i) = Inr s"
        by (cases "pidusage env (mon_pid m) (in_flight m ! i)") auto
      with length_settled [OF True] show ?thesis
        by (simp add: settle_def Let_def) linarith
    qed
    from "3.IH" [of ?m'] pid on le eq show ?thesis
      by (simp add: run_monitor_Cons)
  qed
qed

text \<open>A process whose every lookup fails never gets a sample, before or after \<open>stop\<close>.\<close>

lemma run_monitor_all_fail:
  "\<forall>t. isl (pidusage env (mon_pid m) t) \<Longrightarrow>
   samples (run_monitor env evs m) = samples m \<and> mon_pid (run_monitor env evs m) = mon_pid m"
proof (induction evs arbitrary: m)
  case Nil
  then show ?case by (simp add: run_monitor_Nil)
next
  case (Cons ev evs)
  have st: "samples (mon_step env m ev) = samples m"
  proof (cases ev)
    case (Fire t)
    then show ?thesis by (simp add: fire_def)
  next
    case (Settle i)
    from Cons.prems have "isl (pidusage env (mon_pid m) (in_flight m ! i))" by blast
    with Settle show ?thesis
      by (cases "pidusage env (mon_pid m) (in_flight m ! i)") (simp_all add: settle_def Let_def)
  qed
  from Cons.prems have "\<forall>t. isl (pidusage env (mon_pid (mon_step env m ev)) t)"
    by (simp add: mon_step_pid)
  from Cons.IH [OF this] st show ?case
    by (simp add: run_monitor_Cons mon_step_pid)
qed

text \<open>
  C5. The monitor's timer is set to the fixed interval of 250 ms, whatever the process.
  While the timer runs, each firing starts one lookup of the monitor's process, and
  after \<open>stop\<close> the timer fires no more. A lookup that succeeds appends exactly one
  sample when it settles (also when the timer has been stopped meanwhile) and a lookup
  that fails appends nothing; \<open>stop\<close> leaves the list as it is. So after any course of
  events every sample in the list is the result of a lookup of this monitor's process
  started by one of its firings, there is at most one sample per firing, and exactly one
  per firing, settled or still in flight, when no lookup fails. When every lookup of the
  process fails, as for an identifier that is not a process, the list is empty when the
  monitor is stopped and stays empty whatever settles afterwards. A failed lookup never
  makes a phase fail: a phase raises only what the load generator raised.
\<close>

theorem sampler_ticks:
  "timer_interval (startResourceMonitor pid) = 250 \<and>
   (timer_on m \<longrightarrow> fire t m = m\<lparr>in_flight := in_flight m @ [t]\<rparr>) \<and>
   fire t (stop m) = stop m \<and>
   (i < length (in_flight m) \<and> pidusage env (mon_pid m) (in_flight m ! i) = Inr s \<longrightarrow>
      samples (settle env i m) = samples m @ [s] \<and>
      samples (settle env i (stop m)) = samples m @ [s]) \<and>
   (i < length (in_flight m) \<and> pidusage env (mon_pid m) (in_flight m ! i) = Inl e \<longrightarrow>
      samples (settle env i m) = samples m \<and> timer_on (settle env i m) = timer_on m) \<and>
   samples (stop m) = samples m \<and>
   in_flight (stop m) = in_flight m \<and>
   (\<forall>s \<in> set (samples (run_monitor env evs (startResourceMonitor pid))).
      \<exists>t \<in> set (fired evs). pidusage env pid t = Inr s) \<and>
   length (samples (run_monitor env evs (startResourceMonitor pid))) +
     length (in_flight (run_monitor env evs (startResourceMonitor pid))) \<le> length (fired evs) \<and>
   ((\<forall>t. \<not> isl (pidusage env pid t)) \<longrightarrow>
      length (samples (run_monitor env evs (startResourceMonitor pid))) +
        length (in_flight (run_monitor env evs (startResourceMonitor pid))) =
      length (fired evs)) \<and>
   ((\<forall>t. isl (pidusage env pid t)) \<longrightarrow>
      samples (stop (run_monitor env evs (startResourceMonitor pid))) = [] \<and>
      samples (run_monitor env evs' (stop (run_monitor env evs (startResourceMonitor pid)))) = []) \<and>
   (snd (run_phase env serverPid ep c) = Inl e \<longrightarrow>
      autocannon env \<lparr>connections = c, duration = TEST_DURATION,
                      requests = ep_requests ep\<rparr> = Inl e)"
proof -
  let ?m0 = "startResourceMonitor pid"
  let ?M = "run_monitor env evs ?m0"
  have m0: "mon_pid ?m0 = pid" "timer_on ?m0" "samples ?m0 = []" "in_flight ?m0 = []"
    by (simp_all add: startResourceMonitor_def)
  have fixed: "timer_interval ?m0 = 250"
    by (simp add: startResourceMonitor_def SAMPLE_INTERVAL_MS_def)
  have one: "timer_on m \<longrightarrow> fire t m = m\<lparr>in_flight := in_flight m @ [t]\<rparr>"
    by (simp add: fire_def)
  have halt: "fire t (stop m) = stop m"
    by (simp add: fire_def stop_def)
  have push: "samples (settle env i m) = samples m @ [s] \<and>
      samples (settle env i (stop m)) = samples m @ [s]"
    if "i < length (in_flight m) \<and> pidusage env (mon_pid m) (in_flight m ! i) = Inr s"
    using that by (simp add: settle_def stop_def Let_def)
  have skip: "samples (settle env i m) = samples m \<and> timer_on (settle env i m) = timer_on m"
    if "i < length (in_flight m) \<and> pidusage env (mon_pid m) (in_flight m ! i) = Inl e"
    using that by (simp add: settle_def Let_def)
  have keep: "samples (stop m) = samples m" "in_flight (stop m) = in_flight m"
    by (simp_all add: stop_def)
  have origin: "\<forall>s \<in> set (samples ?M). \<exists>t \<in> set (fired evs). pidusage env pid t = Inr s"
    using run_monitor_origin [of env evs ?m0] by (simp add: m0)
  have atmost: "length (samples ?M) + length (in_flight ?M) \<le> length (fired evs)"
    using run_monitor_count [of env evs ?m0] by (simp add: m0)
  have exact: "(\<forall>t. \<not> isl (pidusage env pid t)) \<longrightarrow>
      length (samples ?M) + length (in_flight ?M) = length (fired evs)"
    using run_monitor_count [of env evs ?m0] by (simp add: m0)
  have none: "samples (stop ?M) = [] \<and> samples (run_monitor env evs' (stop ?M)) = []"
    if fail: "\<forall>t. isl (pidusage env pid t)"
  proof -
    from fail have "\<forall>t. isl (pidusage env (mon_pid ?m0) t)" by (simp add: m0)
    from run_monitor_all_fail [OF this, of evs]
    have a: "samples ?M = []" and p: "mon_pid ?M = pid" by (simp_all add: m0)
    from fail p have "\<forall>t. isl (pidusage env (mon_pid (stop ?M)) t)" by (simp add: stop_def)
    from run_monitor_all_fail [OF this, of evs'] a show ?thesis by (simp add: stop_def)
  qed
  have phase: "snd (run_phase env serverPid ep c) = Inl e \<longrightarrow>
      autocannon env \<lparr>connections = c, duration = TEST_DURATION,
                      requests = ep_requests ep\<rparr> = Inl e"
    by (simp add: run_phase_def Let_def split: sum.splits)
  from fixed one halt push skip keep origin atmost exact none phase show ?thesis
    by blast
qed

theorem sampler_ticks_witness:
  "samples (stop (run_monitor good_env good_events (startResourceMonitor 99999))) = [] \<and>
   samples (run_monitor good_env [Settle 0, Settle 0]
     (stop (run_monitor good_env good_events (startResourceMonitor 99999)))) = [] \<and>
   samples (stop (run_monitor good_env good_events (startResourceMonitor 4242))) =
     [\<lparr>cpu = 20, memory = 200\<rparr>] \<and>
   in_flight (stop (run_monitor good_env good_events (startResourceMonitor 4242))) = [500, 750] \<and>
   samples (run_monitor good_env [Settle 0, Settle 0]
     (stop (run_monitor good_env good_events (startResourceMonitor 4242)))) =
     [\<lparr>cpu = 20, memory = 200\<rparr>, \<lparr>cpu = 20, memory = 200\<rparr>, \<lparr>cpu = 20, memory = 200\<rparr>]"
proof -
  have failed: "\<forall>t. isl (pidusage good_env 99999 t)"
    by (simp add: good_env_def good_pidusage_def)
  from sampler_ticks [where env = good_env and pid = 99999 and evs = good_events
      and evs' = "[Settle 0, Settle 0]"] failed
  have a: "samples (stop (run_monitor good_env good_events (startResourceMonitor 99999))) = [] \<and>
   samples (run_monitor good_env [Settle 0, Settle 0]
     (stop (run_monitor good_env good_events (startResourceMonitor 99999)))) = []"
    by blast
  have b: "samples (stop (run_monitor good_env good_events (startResourceMonitor 4242))) =
     [\<lparr>cpu = 20, memory = 200\<rparr>]"
    "in_flight (stop (run_monitor good_env good_events (startResourceMonitor 4242))) = [500, 750]"
    "samples (run_monitor good_env [Settle 0, Settle 0]
     (stop (run_monitor good_env good_events (startResourceMonitor 4242)))) =
     [\<lparr>cpu = 20, memory = 200\<rparr>, \<lparr>cpu = 20, memory = 200\<rparr>, \<lparr>cpu = 20, memory = 200\<rparr>]"
    by (simp_all add: run_monitor_def good_events_def good_env_def good_pidusage_def
        startResourceMonitor_def stop_def fire_def settle_def Let_def)
  from a b show ?thesis by simp
qed

subsection \<open>A 50th percentile of zero\<close>

text \<open>
  C10, as stated, fails in its last clause: with a 50th percentile of 0 ms, no median and
  a mean of 0 ms, the reported value is the mean, 0, which equals the measured
  percentile although that is zero.
\<close>

theorem latencyP50_zero_counterexample:
  "lat_p50 (latency zero_everywhere_result) = JNum 0 \<and>
   latencyP50 (phase_summary register_ep 1 zero_everywhere_result None) =
     lat_p50 (latency zero_everywhere_result)"
  by (simp add: phase_summary_def zero_everywhere_result_def js_or_def)

text \<open>
  C10, amended. A measured 50th percentile of exactly 0 is passed over: the reported value
  is then the median when that is truthy and the mean otherwise. The reported value
  equals a measured numeric 50th percentile exactly when that percentile is nonzero or
  the fallback value is itself 0.
\<close>

theorem latencyP50_zero:
  "lat_p50 (latency result) = JNum x \<Longrightarrow>
   (x = 0 \<longrightarrow>
      latencyP50 (phase_summary ep c result mon) =
        js_or (lat_median (latency result)) (lat_mean (latency result))) \<and>
   (latencyP50 (phase_summary ep c result mon) = JNum x \<longleftrightarrow>
      x \<noteq> 0 \<or> js_or (lat_median (latency result)) (lat_mean (latency result)) = JNum 0)"
  by (auto simp add: phase_summary_def js_or_def Let_def)

theorem latencyP50_zero_witness:
  "lat_p50 (latency zero_p50_result) = JNum 0 \<and>
   latencyP50 (phase_summary register_ep 1 zero_p50_result None) = JNum (1 / 2) \<and>
   latencyP50 (phase_summary register_ep 1 zero_p50_result None) \<noteq> JNum 0"
proof -
  have p: "lat_p50 (latency zero_p50_result) = JNum 0"
    by (simp add: zero_p50_result_def)
  have f: "js_or (lat_median (latency zero_p50_result)) (lat_mean (latency zero_p50_result)) = JNum (1 / 2)"
    by (simp add: zero_p50_result_def js_or_def)
  from latencyP50_zero [OF p, of register_ep 1 None] p f show ?thesis by simp
qed

subsection \<open>One iteration of the staged script\<close>

lemma readable_json:
  "readable res \<Longrightarrow> k6_json res = Inr (k6_json_of res) \<and>
     k6_json_of res \<noteq> JUndefined \<and> k6_json_of res \<noteq> JNull"
  by (simp add: readable_def k6_json_of_def split: sum.splits)

text \<open>
  C6. In an iteration, a register response with a status other than 200 is followed by
  nothing but the pacing sleep: the request's duration has been added to the
  \<open>register_latency\<close> trend, the check \<open>register 200\<close> has recorded the failure, and no
  proof or verify request is sent. The same holds for the proof request after a
  successful registration, with the \<open>proof_latency\<close> trend and the check
  \<open>proof 200\<close>, and no verify request. After two successful steps the verify request
  is sent, its duration added to \<open>verify_latency\<close> and its status checked, and the
  iteration paces and ends in the same way whatever that status is.
\<close>

theorem iteration_failures:
  "(k6_status (k6_register_res env) \<noteq> 200 \<longrightarrow>
      iteration env =
        ([K6Post ''http://localhost:8080/register'' (k6_stringify env (regBody env)),
          K6Check ''register 200'' False,
          K6TrendAdd ''register_latency'' (k6_duration (k6_register_res env)),
          K6Sleep (PACE_MS env / 1000)], None)) \<and>
   (k6_status (k6_register_res env) = 200 \<and> readable (k6_register_res env) \<and>
    k6_status (k6_proof_res env) \<noteq> 200 \<longrightarrow>
      iteration env =
        ([K6Post ''http://localhost:8080/register'' (k6_stringify env (regBody env)),
          K6Check ''register 200'' True,
          K6TrendAdd ''register_latency'' (k6_duration (k6_register_res env)),
          K6Post ''http://localhost:8080/proof'' (k6_stringify env (k6_proof_body env)),
          K6Check ''proof 200'' False,
          K6TrendAdd ''proof_latency'' (k6_duration (k6_proof_res env)),
          K6Sleep (PACE_MS env / 1000)], None)) \<and>
   (k6_status (k6_register_res env) = 200 \<and> readable (k6_register_res env) \<and>
    k6_status (k6_proof_res env) = 200 \<and> readable (k6_proof_res env) \<longrightarrow>
      iteration env =
        ([K6Post ''http://localhost:8080/register'' (k6_stringify env (regBody env)),
          K6Check ''register 200'' True,
          K6TrendAdd ''register_latency'' (k6_duration (k6_register_res env)),
          K6Post ''http://localhost:8080/proof'' (k6_stringify env (k6_proof_body env)),
          K6Check ''proof 200'' True,
          K6TrendAdd ''proof_latency'' (k6_duration (k6_proof_res env)),
          K6Post ''http://localhost:8080/verify'' (k6_stringify env (k6_verify_body env)),
          K6Check ''verify 200'' (k6_status (k6_verify_res env) = 200),
          K6TrendAdd ''verify_latency'' (k6_duration (k6_verify_res env)),
          K6Sleep (PACE_MS env / 1000)], None))"
proof -
  have reg: "iteration env =
        ([K6Post ''http://localhost:8080/register'' (k6_stringify env (regBody env)),
          K6Check ''register 200'' False,
          K6TrendAdd ''register_latency'' (k6_duration (k6_register_res env)),
          K6Sleep (PACE_MS env / 1000)], None)"
    if "k6_status (k6_register_res env) \<noteq> 200"
    using that by (simp add: iteration_def postJson_def k6_register_res_def Let_def)
  have prv: "iteration env =
        ([K6Post ''http://localhost:8080/register'' (k6_stringify env (regBody env)),
          K6Check ''register 200'' True,
          K6TrendAdd ''register_latency'' (k6_duration (k6_register_res env)),
          K6Post ''http://localhost:8080/proof'' (k6_stringify env (k6_proof_body env)),
          K6Check ''proof 200'' False,
          K6TrendAdd ''proof_latency'' (k6_duration (k6_proof_res env)),
          K6Sleep (PACE_MS env / 1000)], None)"
    if ok: "k6_status (k6_register_res env) = 200" and rd: "readable (k6_register_res env)"
      and bad: "k6_status (k6_proof_res env) \<noteq> 200"
  proof -
    note j = readable_json [OF rd]
    from ok j bad show ?thesis
      unfolding iteration_def postJson_def Let_def
      by (simp add: k6_register_res_def [symmetric] get_prop_field
          k6_proof_body_def [symmetric] k6_proof_res_def [symmetric])
  qed
  have ver: "iteration env =
        ([K6Post ''http://localhost:8080/register'' (k6_stringify env (regBody env)),
          K6Check ''register 200'' True,
          K6TrendAdd ''register_latency'' (k6_duration (k6_register_res env)),
          K6Post ''http://localhost:8080/proof'' (k6_stringify env (k6_proof_body env)),
          K6Check ''proof 200'' True,
          K6TrendAdd ''proof_latency'' (k6_duration (k6_proof_res env)),
          K6Post ''http://localhost:8080/verify'' (k6_stringify env (k6_verify_body env)),
          K6Check ''verify 200'' (k6_status (k6_verify_res env) = 200),
          K6TrendAdd ''verify_latency'' (k6_duration (k6_verify_res env)),
          K6Sleep (PACE_MS env / 1000)], None)"
    if ok: "k6_status (k6_register_res env) = 200" and rd: "readable (k6_register_res env)"
      and ok2: "k6_status (k6_proof_res env) = 200" and rd2: "readable (k6_proof_res env)"
  proof -
    note j = readable_json [OF rd] and j2 = readable_json [OF rd2]
    from ok j ok2 j2 show ?thesis
      unfolding iteration_def postJson_def Let_def
      by (simp add: k6_register_res_def [symmetric] get_prop_field
          k6_proof_body_def [symmetric] k6_proof_res_def [symmetric]
          k6_verify_body_def [symmetric] k6_verify_res_def [symmetric])
  qed
  from reg prv ver show ?thesis by blast
qed

theorem iteration_failures_witness:
  "k6_status (k6_register_res k6_register_500) = 500 \<and>
   iteration k6_register_500 =
     ([K6Post ''http://localhost:8080/register'' ''{}'',
       K6Check ''register 200'' False,
       K6TrendAdd ''register_latency'' 3,
       K6Sleep (1 / 10)], None)"
proof -
  have st: "k6_status (k6_register_res k6_register_500) = 500"
    and du: "k6_duration (k6_register_res k6_register_500) = 3"
    and bd: "k6_stringify k6_register_500 (regBody k6_register_500) = ''{}''"
    and pc: "PACE_MS k6_register_500 = 100"
    by (simp_all add: k6_register_res_def k6_register_500_def k6_good_env_def)
  from iteration_failures [of k6_register_500] st du bd pc show ?thesis by simp
qed

end
